theory Spec2Isabelle
  imports Main "HOL-Library.Word"
begin

unbundle bit_operations_syntax

section \<open>Types of the engine\<close>

text \<open>
  Modelled from the spec: \<^verbatim>\<open>types.h\<close>, \<^verbatim>\<open>bitboard.h\<close> and \<^verbatim>\<open>variant.h\<close> are
  included by \<^verbatim>\<open>position.h\<close> but are not among the sources. The declarations below
  give their types the shape \<^verbatim>\<open>position.h\<close> relies on.

  A colour is one of two values and \<^verbatim>\<open>~c\<close> is the other one. The piece types are the
  ones the variant configuration file lists, in its order, after \<open>ALL_PIECES\<close>; the
  enumerator \<open>ALL_PIECES\<close> is the same value as \<open>NO_PIECE_TYPE\<close> and is used as the
  index of the aggregate slot of every per-type array.
\<close>

datatype color = WHITE | BLACK

fun opp :: "color \<Rightarrow> color" where
  "opp WHITE = BLACK"
| "opp BLACK = WHITE"

datatype piece_type =
    ALL_PIECES
  | PAWN | KNIGHT | BISHOP | ROOK | QUEEN | FERS | ALFIL | FERS_ALFIL | SILVER
  | AIWOK | BERS | ARCHBISHOP | CHANCELLOR | AMAZON | KNIBIS | BISKNI
  | SHOGI_PAWN | LANCE | SHOGI_KNIGHT | EUROSHOGI_KNIGHT | GOLD | HORSE
  | CLOBBER | BREAKTHROUGH | IMMOBILE | CANNON | WAZIR | COMMONER | KING

definition NO_PIECE_TYPE :: piece_type where
  "NO_PIECE_TYPE = ALL_PIECES"

text \<open>
  Modelled from the spec: a \<^verbatim>\<open>Piece\<close> packs a colour (high bits) and a piece type (low
  bits) into one integer; the model keeps the two components as a pair, so that
  \<open>make_piece\<close>, \<open>color_of\<close> and \<open>type_of\<close> are pairing and the projections. The empty
  sentinel \<open>NO_PIECE\<close> is the integer 0, that is \<open>make_piece WHITE NO_PIECE_TYPE\<close>.
\<close>

type_synonym piece = "color \<times> piece_type"

definition make_piece :: "color \<Rightarrow> piece_type \<Rightarrow> piece" where
  "make_piece c pt = (c, pt)"

definition color_of :: "piece \<Rightarrow> color" where
  "color_of pc = fst pc"

definition type_of :: "piece \<Rightarrow> piece_type" where
  "type_of pc = snd pc"

definition NO_PIECE :: piece where
  "NO_PIECE = make_piece WHITE NO_PIECE_TYPE"

text \<open>
  Modelled from the spec: squares are numbered from 0, \<open>SQUARE_NB\<close> of them, and
  \<open>SQ_NONE\<close> is the first number that is not a square. A \<^verbatim>\<open>Bitboard\<close> is a machine word
  with one bit per square; \<open>SquareBB s\<close> is the word with only bit \<open>s\<close> set, and the
  operators that combine a bitboard with a square combine it with \<open>SquareBB s\<close>.
\<close>

type_synonym square = nat
type_synonym Bitboard = "64 word"
type_synonym Key = "64 word"
type_synonym Value = int
type_synonym CheckCount = nat

definition SQUARE_NB :: nat where
  "SQUARE_NB = 64"

definition SQ_NONE :: square where
  "SQ_NONE = SQUARE_NB"

definition SquareBB :: "square \<Rightarrow> Bitboard" where
  "SquareBB s = push_bit s 1"

definition popcount :: "Bitboard \<Rightarrow> nat" where
  "popcount b = length (filter (bit b) [0..<SQUARE_NB])"

text \<open>
  Modelled from the spec: the result values of \<^verbatim>\<open>types.h\<close>. A win is \<open>VALUE_MATE\<close>, a
  loss \<open>- VALUE_MATE\<close>, a draw \<open>VALUE_DRAW\<close>, and \<open>VALUE_NONE\<close> stands for a rule that is
  not configured. \<open>mate_in ply\<close> is a win and \<open>mated_in ply\<close> a loss, \<open>ply\<close> plies from the
  root.
\<close>

definition VALUE_DRAW :: Value where
  "VALUE_DRAW = 0"

definition VALUE_MATE :: Value where
  "VALUE_MATE = 32000"

definition VALUE_NONE :: Value where
  "VALUE_NONE = 32002"

definition mate_in :: "int \<Rightarrow> Value" where
  "mate_in ply = VALUE_MATE - ply"

definition mated_in :: "int \<Rightarrow> Value" where
  "mated_in ply = - VALUE_MATE + ply"

text \<open>
  Modelled from the spec: a \<^verbatim>\<open>Move\<close> packs the origin and destination squares, the kind
  of the move and, for a drop, the piece type dropped. \<^verbatim>\<open>position.h\<close> reads it through
  \<open>from_sq\<close>, \<open>to_sq\<close>, \<open>type_of\<close> (here \<open>move_type_of\<close>) and \<open>dropped_piece_type\<close>.
  A drop also names the piece type taken from the hand, \<open>in_hand_piece_type\<close>: it is
  the type dropped, or its base type when the piece is dropped in promoted state.
  The kinds are the ones the specification lists: normal, castling, en passant, drop, and
  the promotion or demotion of the moved piece. \<open>PROMOTION\<close> is the promotion of a pawn
  to the type the move names; \<open>PIECE_PROMOTION\<close> is the promotion of another piece to the
  type the move names; \<open>PIECE_DEMOTION\<close> is the demotion of a piece of the type the move
  names to its base type.
\<close>

datatype move_type =
  NORMAL | PROMOTION | ENPASSANT | CASTLING | DROP | PIECE_PROMOTION | PIECE_DEMOTION

record move =
  from_sq :: square
  to_sq :: square
  move_type_of :: move_type
  promotion_type :: piece_type
  dropped_piece_type :: piece_type
  in_hand_piece_type :: piece_type

text \<open>
  Modelled from the spec: the fields of the rule descriptor (\<^verbatim>\<open>Variant\<close>) that
  \<^verbatim>\<open>position.h\<close> reads and that move application needs. Files and ranks are
  numbered from 0. The demotion map gives the base type to which a piece type reverts;
  it is \<open>NO_PIECE_TYPE\<close> for a type without an entry.
\<close>

record variant =
  maxRank :: nat
  demotionMap :: "piece_type \<Rightarrow> piece_type"
  castlingKingsideFile :: nat
  castlingQueensideFile :: nat
  castlingRank :: nat
  pieceDrops :: bool
  dropLoop :: bool
  capturesToHand :: bool
  bareKingValue :: Value
  bareKingMove :: bool
  whiteFlag :: Bitboard
  blackFlag :: Bitboard
  flagMove :: bool
  maxCheckCount :: CheckCount

section \<open>The position (position.h)\<close>

text \<open>
  \<^verbatim>\<open>struct StateInfo\<close>, without the evaluation terms (\<^verbatim>\<open>psq\<close>, \<^verbatim>\<open>nonPawnMaterial\<close>) and
  the fields that only the attack computation fills. The \<^verbatim>\<open>previous\<close> pointer is the
  list \<open>previous\<close> of the position below.
\<close>

record state_info =
  pawnKey :: Key
  materialKey :: Key
  castlingRights :: int
  rule50 :: int
  pliesFromNull :: int
  checksGiven :: "color \<Rightarrow> CheckCount"
  epSquare :: square
  key :: Key
  capturedPiece :: piece
  capturedpromoted :: bool

text \<open>
  The data members of \<^verbatim>\<open>class Position\<close>. An array is a function of its index. \<open>st\<close> is
  the state record that the pointer \<^verbatim>\<open>st\<close> designates, and \<open>previous\<close> the chain of
  records reached from it through \<^verbatim>\<open>st->previous\<close>, nearest first.
\<close>

record position =
  board :: "square \<Rightarrow> piece"
  byTypeBB :: "piece_type \<Rightarrow> Bitboard"
  byColorBB :: "color \<Rightarrow> Bitboard"
  pieceCount :: "piece \<Rightarrow> int"
  pieceList :: "piece \<Rightarrow> int \<Rightarrow> square"
  index :: "square \<Rightarrow> int"
  castlingRightsMask :: "square \<Rightarrow> int"
  gamePly :: int
  sideToMove :: color
  st :: state_info
  previous :: "state_info list"
  var :: variant
  pieceCountInHand :: "color \<Rightarrow> piece_type \<Rightarrow> int"
  promotedPieces :: Bitboard

subsection \<open>Rule properties\<close>

definition bare_king_value :: "position \<Rightarrow> int \<Rightarrow> Value" where
  "bare_king_value pos ply =
     (let v = bareKingValue (var pos)
      in if v = VALUE_MATE then mate_in ply
         else if v = - VALUE_MATE then mated_in ply
         else v)"

definition bare_king_move :: "position \<Rightarrow> bool" where
  "bare_king_move pos = bareKingMove (var pos)"

definition capture_the_flag :: "position \<Rightarrow> color \<Rightarrow> Bitboard" where
  "capture_the_flag pos c = (if c = WHITE then whiteFlag (var pos) else blackFlag (var pos))"

definition flag_move :: "position \<Rightarrow> bool" where
  "flag_move pos = flagMove (var pos)"

definition max_check_count :: "position \<Rightarrow> CheckCount" where
  "max_check_count pos = maxCheckCount (var pos)"

definition checks_given :: "position \<Rightarrow> color \<Rightarrow> CheckCount" where
  "checks_given pos c = checksGiven (st pos) c"

subsection \<open>Position representation\<close>

definition count :: "position \<Rightarrow> piece_type \<Rightarrow> color \<Rightarrow> int" where
  "count pos Pt c = pieceCount pos (make_piece c Pt)"

text \<open>
  \<^verbatim>\<open>square<Pt>(c)\<close> asserts that side \<open>c\<close> has exactly one piece of type \<open>Pt\<close>; the model
  is the function as a build without assertions runs it.
\<close>

definition square :: "position \<Rightarrow> piece_type \<Rightarrow> color \<Rightarrow> square" where
  "square pos Pt c = pieceList pos (make_piece c Pt) 0"

definition empty_sq :: "position \<Rightarrow> square \<Rightarrow> bool" where
  "empty_sq pos s = (board pos s = NO_PIECE)"

definition piece_on :: "position \<Rightarrow> square \<Rightarrow> piece" where
  "piece_on pos s = board pos s"

definition pieces :: "position \<Rightarrow> Bitboard" where
  "pieces pos = byTypeBB pos ALL_PIECES"

definition pieces_c :: "position \<Rightarrow> color \<Rightarrow> Bitboard" where
  "pieces_c pos c = byColorBB pos c"

definition pieces_pt :: "position \<Rightarrow> piece_type \<Rightarrow> Bitboard" where
  "pieces_pt pos pt = byTypeBB pos pt"


definition count_in_hand :: "position \<Rightarrow> color \<Rightarrow> piece_type \<Rightarrow> int" where
  "count_in_hand pos c pt = pieceCountInHand pos c pt"


definition moved_piece :: "position \<Rightarrow> move \<Rightarrow> piece" where
  "moved_piece pos m =
     (if move_type_of m = DROP then make_piece (sideToMove pos) (dropped_piece_type m)
      else board pos (from_sq m))"

subsection \<open>Properties of moves\<close>

definition capture_or_promotion :: "position \<Rightarrow> move \<Rightarrow> bool" where
  "capture_or_promotion pos m =
     (if move_type_of m \<noteq> NORMAL then move_type_of m \<noteq> DROP \<and> move_type_of m \<noteq> CASTLING
      else \<not> empty_sq pos (to_sq m))"

definition capture :: "position \<Rightarrow> move \<Rightarrow> bool" where
  "capture pos m =
     ((\<not> empty_sq pos (to_sq m) \<and> move_type_of m \<noteq> CASTLING) \<or> move_type_of m = ENPASSANT)"

subsection \<open>The terminal-condition evaluator\<close>

text \<open>
  \<^verbatim>\<open>is_variant_end(result, ply)\<close> returns a truth value and, when it is true, writes the
  result through the reference: the model returns \<open>Some result\<close> for true and \<open>None\<close>
  for false.
\<close>

definition is_variant_end :: "position \<Rightarrow> int \<Rightarrow> Value option" where
  "is_variant_end pos ply =
     (if bare_king_value pos 0 \<noteq> VALUE_NONE
         \<and> \<not> bare_king_move pos
         \<and> count pos ALL_PIECES (sideToMove pos) - count pos KING (sideToMove pos) = 0
      then Some (bare_king_value pos ply)
      else if bare_king_value pos 0 \<noteq> VALUE_NONE
         \<and> bare_king_move pos
         \<and> count pos ALL_PIECES (opp (sideToMove pos)) - count pos KING (opp (sideToMove pos)) = 0
      then Some (- bare_king_value pos ply)
      else if \<not> flag_move pos
         \<and> capture_the_flag pos (opp (sideToMove pos))
             AND SquareBB (square pos KING (opp (sideToMove pos))) \<noteq> 0
      then Some (mated_in ply)
      else if flag_move pos
         \<and> capture_the_flag pos (sideToMove pos)
             AND SquareBB (square pos KING (sideToMove pos)) \<noteq> 0
      then Some (mate_in ply)
      else if max_check_count pos \<noteq> 0
         \<and> checksGiven (st pos) (opp (sideToMove pos)) = max_check_count pos
      then Some (mated_in ply)
      else None)"

definition is_variant_end0 :: "position \<Rightarrow> bool" where
  "is_variant_end0 pos = (is_variant_end pos 0 \<noteq> None)"

subsection \<open>Piece placement\<close>

definition put_piece :: "piece \<Rightarrow> square \<Rightarrow> position \<Rightarrow> position" where
  "put_piece pc s pos =
     (let pos = pos\<lparr>board := (board pos)(s := pc)\<rparr>;
          pos = pos\<lparr>byTypeBB := (byTypeBB pos)
                  (ALL_PIECES := byTypeBB pos ALL_PIECES OR SquareBB s)\<rparr>;
          pos = pos\<lparr>byTypeBB := (byTypeBB pos)
                  (type_of pc := byTypeBB pos (type_of pc) OR SquareBB s)\<rparr>;
          pos = pos\<lparr>byColorBB := (byColorBB pos)
                  (color_of pc := byColorBB pos (color_of pc) OR SquareBB s)\<rparr>;
          pos = pos\<lparr>index := (index pos)(s := pieceCount pos pc),
                    pieceCount := (pieceCount pos)(pc := pieceCount pos pc + 1)\<rparr>;
          pos = pos\<lparr>pieceList := (pieceList pos)
                  (pc := (pieceList pos pc)(index pos s := s))\<rparr>;
          pos = pos\<lparr>pieceCount := (pieceCount pos)
                  (make_piece (color_of pc) ALL_PIECES :=
                     pieceCount pos (make_piece (color_of pc) ALL_PIECES) + 1)\<rparr>
      in pos)"

text \<open>
  \<^verbatim>\<open>remove_piece\<close> leaves \<open>board s\<close> as it is: the source comments the assignment out,
  since the capturing piece overwrites the square.
\<close>

definition remove_piece :: "piece \<Rightarrow> square \<Rightarrow> position \<Rightarrow> position" where
  "remove_piece pc s pos =
     (let pos = pos\<lparr>byTypeBB := (byTypeBB pos)
                  (ALL_PIECES := byTypeBB pos ALL_PIECES XOR SquareBB s)\<rparr>;
          pos = pos\<lparr>byTypeBB := (byTypeBB pos)
                  (type_of pc := byTypeBB pos (type_of pc) XOR SquareBB s)\<rparr>;
          pos = pos\<lparr>byColorBB := (byColorBB pos)
                  (color_of pc := byColorBB pos (color_of pc) XOR SquareBB s)\<rparr>;
          pos = pos\<lparr>pieceCount := (pieceCount pos)(pc := pieceCount pos pc - 1)\<rparr>;
          lastSquare = pieceList pos pc (pieceCount pos pc);
          pos = pos\<lparr>index := (index pos)(lastSquare := index pos s)\<rparr>;
          pos = pos\<lparr>pieceList := (pieceList pos)
                  (pc := (pieceList pos pc)(index pos lastSquare := lastSquare))\<rparr>;
          pos = pos\<lparr>pieceList := (pieceList pos)
                  (pc := (pieceList pos pc)(pieceCount pos pc := SQ_NONE))\<rparr>;
          pos = pos\<lparr>pieceCount := (pieceCount pos)
                  (make_piece (color_of pc) ALL_PIECES :=
                     pieceCount pos (make_piece (color_of pc) ALL_PIECES) - 1)\<rparr>
      in pos)"

definition move_piece :: "piece \<Rightarrow> square \<Rightarrow> square \<Rightarrow> position \<Rightarrow> position" where
  "move_piece pc from to pos =
     (let fromTo = SquareBB from XOR SquareBB to;
          pos = pos\<lparr>byTypeBB := (byTypeBB pos)
                  (ALL_PIECES := byTypeBB pos ALL_PIECES XOR fromTo)\<rparr>;
          pos = pos\<lparr>byTypeBB := (byTypeBB pos)
                  (type_of pc := byTypeBB pos (type_of pc) XOR fromTo)\<rparr>;
          pos = pos\<lparr>byColorBB := (byColorBB pos)
                  (color_of pc := byColorBB pos (color_of pc) XOR fromTo)\<rparr>;
          pos = pos\<lparr>board := (board pos)(from := NO_PIECE)\<rparr>;
          pos = pos\<lparr>board := (board pos)(to := pc)\<rparr>;
          pos = pos\<lparr>index := (index pos)(to := index pos from)\<rparr>;
          pos = pos\<lparr>pieceList := (pieceList pos)
                  (pc := (pieceList pos pc)(index pos to := to))\<rparr>
      in pos)"

subsection \<open>Hands and drops\<close>

definition add_to_hand :: "color \<Rightarrow> piece_type \<Rightarrow> position \<Rightarrow> position" where
  "add_to_hand c pt pos =
     (let pos = pos\<lparr>pieceCountInHand := (pieceCountInHand pos)
                  (c := (pieceCountInHand pos c)(pt := pieceCountInHand pos c pt + 1))\<rparr>;
          pos = pos\<lparr>pieceCountInHand := (pieceCountInHand pos)
                  (c := (pieceCountInHand pos c)
                     (ALL_PIECES := pieceCountInHand pos c ALL_PIECES + 1))\<rparr>
      in pos)"

definition remove_from_hand :: "color \<Rightarrow> piece_type \<Rightarrow> position \<Rightarrow> position" where
  "remove_from_hand c pt pos =
     (let pos = pos\<lparr>pieceCountInHand := (pieceCountInHand pos)
                  (c := (pieceCountInHand pos c)(pt := pieceCountInHand pos c pt - 1))\<rparr>;
          pos = pos\<lparr>pieceCountInHand := (pieceCountInHand pos)
                  (c := (pieceCountInHand pos c)
                     (ALL_PIECES := pieceCountInHand pos c ALL_PIECES - 1))\<rparr>
      in pos)"

text \<open>
  \<^verbatim>\<open>drop_piece\<close> asserts that the hand holds the piece; \<^verbatim>\<open>undrop_piece\<close> asserts it
  afterwards. Both are modelled as a build without assertions runs them.
\<close>

definition drop_piece :: "piece \<Rightarrow> square \<Rightarrow> position \<Rightarrow> position" where
  "drop_piece pc s pos = remove_from_hand (color_of pc) (type_of pc) (put_piece pc s pos)"

definition undrop_piece :: "piece \<Rightarrow> square \<Rightarrow> position \<Rightarrow> position" where
  "undrop_piece pc s pos =
     (let pos = remove_piece pc s pos;
          pos = pos\<lparr>board := (board pos)(s := NO_PIECE)\<rparr>
      in add_to_hand (color_of pc) (type_of pc) pos)"

section \<open>Move application and retraction\<close>

text \<open>
  Modelled from the spec: \<^verbatim>\<open>types.h\<close> is not among the sources. A
  rank of the board has \<open>FILE_NB\<close> squares.
\<close>

definition FILE_NB :: nat where
  "FILE_NB = 8"


text \<open>
  Modelled from the spec: \<^verbatim>\<open>types.h\<close> is not among the sources.
  The square of a file and a rank.
\<close>

definition make_square :: "nat \<Rightarrow> nat \<Rightarrow> square" where
  "make_square f r = r * FILE_NB + f"

text \<open>
  Modelled from the spec: \<^verbatim>\<open>types.h\<close> is not among the sources.
  The step of a pawn: one rank towards the opponent.
\<close>

definition pawn_push :: "color \<Rightarrow> int" where
  "pawn_push c = (if c = WHITE then 8 else - 8)"

text \<open>
  Modelled from the spec: the precomputed pseudo-random constants of the three hash
  keys, which \<^verbatim>\<open>position.cpp\<close> initialises and which are not
  among the sources, keyed as the specification lists them: by (piece identity, square),
  by (piece, count) for the material key, by (piece, hand count), by en-passant file, by
  castling right and by the side to move; and the attack oracle, consulted here for
  pawns only.
\<close>

record tables =
  z_psq :: "piece \<Rightarrow> square \<Rightarrow> Key"
  z_material :: "piece \<Rightarrow> int \<Rightarrow> Key"
  z_inHand :: "piece \<Rightarrow> int \<Rightarrow> Key"
  z_enpassant :: "nat \<Rightarrow> Key"
  z_castling :: "nat \<Rightarrow> Key"
  z_side :: Key
  z_noPawns :: Key
  pawn_attacks_bb :: "color \<Rightarrow> square \<Rightarrow> Bitboard"

text \<open>
  Modelled from the spec: an XOR toggle of the primary key of the current state record.
\<close>

definition xor_key :: "Key \<Rightarrow> position \<Rightarrow> position" where
  "xor_key x pos = pos\<lparr>st := (st pos)\<lparr>key := key (st pos) XOR x\<rparr>\<rparr>"

text \<open>
  Modelled from the spec: an XOR toggle of the pawn key of the current state record.
\<close>

definition xor_pawn_key :: "Key \<Rightarrow> position \<Rightarrow> position" where
  "xor_pawn_key x pos = pos\<lparr>st := (st pos)\<lparr>pawnKey := pawnKey (st pos) XOR x\<rparr>\<rparr>"

text \<open>
  Modelled from the spec: an XOR toggle of the material key of the current state record.
\<close>

definition xor_material_key :: "Key \<Rightarrow> position \<Rightarrow> position" where
  "xor_material_key x pos = pos\<lparr>st := (st pos)\<lparr>materialKey := materialKey (st pos) XOR x\<rparr>\<rparr>"

text \<open>
  Modelled from the spec: the body of \<^verbatim>\<open>position.cpp\<close> is not
  among the sources. The keys are maintained by toggling on every structural change:
  placing a piece toggles its (piece, square) constant in the primary key, and in the
  pawn key for a pawn, and its (piece, count) constant in the material key.
\<close>

definition put_piece_k :: "tables \<Rightarrow> piece \<Rightarrow> square \<Rightarrow> position \<Rightarrow> position" where
  "put_piece_k T pc s pos =
     (let pos = put_piece pc s pos;
          pos = xor_key (z_psq T pc s) pos;
          pos = (if type_of pc = PAWN then xor_pawn_key (z_psq T pc s) pos else pos)
      in xor_material_key (z_material T pc (pieceCount pos pc - 1)) pos)"

text \<open>
  Modelled from the spec: removing a piece toggles the same constants as placing it.
\<close>

definition remove_piece_k :: "tables \<Rightarrow> piece \<Rightarrow> square \<Rightarrow> position \<Rightarrow> position" where
  "remove_piece_k T pc s pos =
     (let pos = remove_piece pc s pos;
          pos = xor_key (z_psq T pc s) pos;
          pos = (if type_of pc = PAWN then xor_pawn_key (z_psq T pc s) pos else pos)
      in xor_material_key (z_material T pc (pieceCount pos pc)) pos)"

text \<open>
  Modelled from the spec: relocating a piece toggles its (piece, square) constants for
  both squares, in the primary key and, for a pawn, in the pawn key.
\<close>

definition move_piece_k :: "tables \<Rightarrow> piece \<Rightarrow> square \<Rightarrow> square \<Rightarrow> position \<Rightarrow> position" where
  "move_piece_k T pc from to pos =
     (let pos = move_piece pc from to pos;
          pos = xor_key (z_psq T pc from XOR z_psq T pc to) pos
      in if type_of pc = PAWN then xor_pawn_key (z_psq T pc from XOR z_psq T pc to) pos
         else pos)"

text \<open>
  Modelled from the spec: adding a piece to a hand toggles the hand constants of the old
  and the new count in the primary key.
\<close>

definition add_to_hand_k :: "tables \<Rightarrow> piece \<Rightarrow> position \<Rightarrow> position" where
  "add_to_hand_k T pc pos =
     (let pos = add_to_hand (color_of pc) (type_of pc) pos;
          n = pieceCountInHand pos (color_of pc) (type_of pc)
      in xor_key (z_inHand T pc (n - 1) XOR z_inHand T pc n) pos)"

text \<open>
  Modelled from the spec: taking a piece from a hand toggles the hand constants of the
  old and the new count in the primary key.
\<close>

definition remove_from_hand_k :: "tables \<Rightarrow> piece \<Rightarrow> position \<Rightarrow> position" where
  "remove_from_hand_k T pc pos =
     (let pos = remove_from_hand (color_of pc) (type_of pc) pos;
          n = pieceCountInHand pos (color_of pc) (type_of pc)
      in xor_key (z_inHand T pc (n + 1) XOR z_inHand T pc n) pos)"


text \<open>
  Modelled from the spec: the 50-move counter is reset by a capture, a pawn move and a
  promotion.
\<close>

definition reset_rule50 :: "position \<Rightarrow> position" where
  "reset_rule50 pos = pos\<lparr>st := (st pos)\<lparr>rule50 := 0\<rparr>\<rparr>"

text \<open>
  Modelled from the spec: the captured piece is recorded in the new state record.
\<close>

definition set_captured :: "piece \<Rightarrow> position \<Rightarrow> position" where
  "set_captured pc pos = pos\<lparr>st := (st pos)\<lparr>capturedPiece := pc\<rparr>\<rparr>"

text \<open>
  Modelled from the spec: the base type of a promoted piece is the one the demotion map
  of the descriptor gives for its type; the map has entries for the promoted types of
  pieces other than pawns, so that a promoted piece of a type without an entry was
  promoted from a pawn.
\<close>

definition base_type :: "variant \<Rightarrow> piece_type \<Rightarrow> piece_type" where
  "base_type v pt = (if demotionMap v pt = NO_PIECE_TYPE then PAWN else demotionMap v pt)"








text \<open>
  Modelled from the spec: the type of the moved piece before a promotion or demotion,
  from the move's own encoding: a pawn for \<open>PROMOTION\<close>, the base type of the type named
  for \<open>PIECE_PROMOTION\<close>, the type named for \<open>PIECE_DEMOTION\<close>.
\<close>

definition promotion_from :: "variant \<Rightarrow> move \<Rightarrow> piece_type" where
  "promotion_from v m =
     (if move_type_of m = PIECE_PROMOTION then base_type v (promotion_type m)
      else if move_type_of m = PIECE_DEMOTION then promotion_type m
      else PAWN)"






text \<open>
  Modelled from the spec: the castling rank of the descriptor, relative to the side that
  castles.
\<close>

definition castling_rank :: "variant \<Rightarrow> color \<Rightarrow> nat" where
  "castling_rank v us = (if us = WHITE then castlingRank v else maxRank v - castlingRank v)"

text \<open>
  Modelled from the spec: castling is encoded as the king capturing its own rook; the
  king goes to the configured kingside or queenside destination file on the castling
  rank.
\<close>

definition castling_king_to :: "variant \<Rightarrow> color \<Rightarrow> square \<Rightarrow> square \<Rightarrow> square" where
  "castling_king_to v us from to =
     make_square (if to > from then castlingKingsideFile v else castlingQueensideFile v)
       (castling_rank v us)"

text \<open>
  Modelled from the spec: the rook goes to the file adjacent to the king's destination,
  on the side of the centre.
\<close>

definition castling_rook_to :: "variant \<Rightarrow> color \<Rightarrow> square \<Rightarrow> square \<Rightarrow> square" where
  "castling_rook_to v us from to =
     make_square (if to > from then castlingKingsideFile v - 1 else castlingQueensideFile v + 1)
       (castling_rank v us)"

text \<open>
  Modelled from the spec: castling relocates two pieces. Both are removed first, since
  the squares may overlap when the start position is not the standard one.
\<close>

definition do_castling_k :: "tables \<Rightarrow> color \<Rightarrow> move \<Rightarrow> position \<Rightarrow> position" where
  "do_castling_k T us m pos =
     (let from = from_sq m; rfrom = to_sq m;
          to = castling_king_to (var pos) us from rfrom;
          rto = castling_rook_to (var pos) us from rfrom;
          pos = remove_piece_k T (make_piece us KING) from pos;
          pos = remove_piece_k T (make_piece us ROOK) rfrom pos;
          pos = pos\<lparr>board := (board pos)(rfrom := NO_PIECE, from := NO_PIECE)\<rparr>;
          pos = put_piece_k T (make_piece us KING) to pos;
          pos = put_piece_k T (make_piece us ROOK) rto pos
      in set_captured NO_PIECE pos)"













section \<open>Structural legality and the content that retraction restores\<close>

text \<open>
  The squares and the moved piece of a promotion or demotion: the piece of the side to
  move that stands on the origin has the type that the move's encoding gives it, the
  destination is empty or holds a piece of the other side, and the move names a piece
  type.
\<close>

definition promotion_squares_ok :: "position \<Rightarrow> move \<Rightarrow> bool" where
  "promotion_squares_ok pos m =
     (let us = sideToMove pos; from = from_sq m; to = to_sq m
      in from < SQUARE_NB
         \<and> board pos from = make_piece us (promotion_from (var pos) m)
         \<and> (board pos to = NO_PIECE \<or> color_of (board pos to) = opp us)
         \<and> promotion_type m \<noteq> ALL_PIECES)"

text \<open>
  The structural conditions that every legal move satisfies, by kind: the squares are on
  the board, the moving piece belongs to the side to move, a captured piece to the other
  side, a double step of a pawn passes over a square of the board, a drop names the piece
  type dropped and the one taken from the hand, castling moves the king and its own rook to squares that are empty or their own.
\<close>

definition move_ok :: "position \<Rightarrow> move \<Rightarrow> bool" where
  "move_ok pos m =
     (let us = sideToMove pos; them = opp us; from = from_sq m; to = to_sq m
      in to < SQUARE_NB \<and>
         (case move_type_of m of
            NORMAL \<Rightarrow>
              from < SQUARE_NB \<and> board pos from \<noteq> NO_PIECE \<and> color_of (board pos from) = us
              \<and> (board pos to = NO_PIECE \<or> color_of (board pos to) = them)
              \<and> (type_of (board pos from) = PAWN \<and> to XOR from = 16
                   \<longrightarrow> nat (int to - pawn_push us) < SQUARE_NB)
          | PROMOTION \<Rightarrow> promotion_squares_ok pos m
          | ENPASSANT \<Rightarrow>
              from < SQUARE_NB \<and> board pos from = make_piece us PAWN
              \<and> board pos to = NO_PIECE
              \<and> 0 \<le> int to - pawn_push us \<and> nat (int to - pawn_push us) < SQUARE_NB
              \<and> board pos (nat (int to - pawn_push us)) = make_piece them PAWN
          | CASTLING \<Rightarrow>
              from < SQUARE_NB \<and> board pos from = make_piece us KING
              \<and> board pos to = make_piece us ROOK
              \<and> castling_king_to (var pos) us from to < SQUARE_NB
              \<and> castling_rook_to (var pos) us from to < SQUARE_NB
              \<and> castling_king_to (var pos) us from to \<noteq> castling_rook_to (var pos) us from to
              \<and> (board pos (castling_king_to (var pos) us from to) = NO_PIECE
                   \<or> castling_king_to (var pos) us from to = from
                   \<or> castling_king_to (var pos) us from to = to)
              \<and> (board pos (castling_rook_to (var pos) us from to) = NO_PIECE
                   \<or> castling_rook_to (var pos) us from to = from
                   \<or> castling_rook_to (var pos) us from to = to)
          | DROP \<Rightarrow> dropped_piece_type m \<noteq> ALL_PIECES \<and> in_hand_piece_type m \<noteq> ALL_PIECES
          | PIECE_PROMOTION \<Rightarrow> promotion_squares_ok pos m
          | PIECE_DEMOTION \<Rightarrow> promotion_squares_ok pos m))"



section \<open>The terminal conditions as an ordered chain\<close>

text \<open>
  The specification describes the evaluator as an ordered chain of rule families:
  bare king, capture the flag, check count. Each family is written here on its own,
  as a function that yields the family's result when its condition holds, and the
  chain takes the first family that yields one. These definitions follow the
  specification; \<open>is_variant_end\<close> above follows the source.
\<close>

definition king_in_flag :: "position \<Rightarrow> color \<Rightarrow> bool" where
  "king_in_flag pos c = (capture_the_flag pos c AND SquareBB (square pos KING c) \<noteq> 0)"

definition bare_king_rule :: "position \<Rightarrow> int \<Rightarrow> Value option" where
  "bare_king_rule pos ply =
     (if bareKingValue (var pos) = VALUE_NONE then None
      else if \<not> bareKingMove (var pos)
      then (if count pos ALL_PIECES (sideToMove pos) = count pos KING (sideToMove pos)
            then Some (bare_king_value pos ply) else None)
      else (if count pos ALL_PIECES (opp (sideToMove pos))
                 = count pos KING (opp (sideToMove pos))
            then Some (- bare_king_value pos ply) else None))"

definition flag_rule :: "position \<Rightarrow> int \<Rightarrow> Value option" where
  "flag_rule pos ply =
     (if \<not> flagMove (var pos)
      then (if king_in_flag pos (opp (sideToMove pos)) then Some (mated_in ply) else None)
      else (if king_in_flag pos (sideToMove pos) then Some (mate_in ply) else None))"

definition check_count_rule :: "position \<Rightarrow> int \<Rightarrow> Value option" where
  "check_count_rule pos ply =
     (if maxCheckCount (var pos) \<noteq> 0
         \<and> checksGiven (st pos) (opp (sideToMove pos)) = maxCheckCount (var pos)
      then Some (mated_in ply) else None)"

fun first_satisfied :: "'a option list \<Rightarrow> 'a option" where
  "first_satisfied [] = None"
| "first_satisfied (None # rs) = first_satisfied rs"
| "first_satisfied (Some v # rs) = Some v"

section \<open>Consistency of board and bitboards\<close>

text \<open>
  A square is consistent when the all-pieces, colour and type bitboards have its bit set
  exactly for the piece that \<open>board\<close> holds there, and a piece on the board has a proper
  type. A square is vacant in the bitboards when no bitboard has its bit set.
  \<open>bitboards_ok_except S\<close> says that every square outside \<open>S\<close> is consistent and every
  square of \<open>S\<close> is vacant in the bitboards, whatever \<open>board\<close> still holds there: \<open>S\<close> is
  the set of squares that \<open>remove_piece\<close> has left stale.
\<close>

definition occupied_at :: "position \<Rightarrow> square \<Rightarrow> bool" where
  "occupied_at pos s =
     ((bit (byTypeBB pos ALL_PIECES) s \<longleftrightarrow> board pos s \<noteq> NO_PIECE)
      \<and> (\<forall>c. bit (byColorBB pos c) s \<longleftrightarrow>
              board pos s \<noteq> NO_PIECE \<and> color_of (board pos s) = c)
      \<and> (\<forall>pt. pt \<noteq> ALL_PIECES \<longrightarrow>
              (bit (byTypeBB pos pt) s \<longleftrightarrow>
                 board pos s \<noteq> NO_PIECE \<and> type_of (board pos s) = pt))
      \<and> (board pos s \<noteq> NO_PIECE \<longrightarrow> type_of (board pos s) \<noteq> ALL_PIECES))"

definition vacant_at :: "position \<Rightarrow> square \<Rightarrow> bool" where
  "vacant_at pos s =
     ((\<forall>c. \<not> bit (byColorBB pos c) s) \<and> (\<forall>pt. \<not> bit (byTypeBB pos pt) s))"

definition bitboards_ok_except :: "square set \<Rightarrow> position \<Rightarrow> bool" where
  "bitboards_ok_except S pos =
     (\<forall>s<SQUARE_NB. if s \<in> S then vacant_at pos s else occupied_at pos s)"

definition bitboards_ok :: "position \<Rightarrow> bool" where
  "bitboards_ok pos = bitboards_ok_except {} pos"

text \<open>
  The property of the square map and the bitboards that the specification states, for
  the squares outside \<open>S\<close>: \<open>board s\<close> is a piece \<open>pc\<close> exactly when \<open>s\<close> is set in the
  bitboard of the colour of \<open>pc\<close> and in the bitboard of the type of \<open>pc\<close>; and the
  all-pieces bitboard is the union of the two colour bitboards.
\<close>

definition board_matches_except :: "square set \<Rightarrow> position \<Rightarrow> bool" where
  "board_matches_except S pos =
     ((\<forall>s<SQUARE_NB. s \<notin> S \<longrightarrow>
         (\<forall>pc. pc \<noteq> NO_PIECE \<and> type_of pc \<noteq> ALL_PIECES \<longrightarrow>
            (board pos s = pc \<longleftrightarrow>
               bit (byColorBB pos (color_of pc)) s \<and> bit (byTypeBB pos (type_of pc)) s)))
      \<and> byTypeBB pos ALL_PIECES = (byColorBB pos WHITE OR byColorBB pos BLACK))"

definition board_matches_bitboards :: "position \<Rightarrow> bool" where
  "board_matches_bitboards pos = board_matches_except {} pos"

text \<open>
  Sequences of the five placement primitives. \<open>placement_ok\<close> is the contract of the
  caller: a piece is put, dropped or moved onto a square that the bitboards show empty,
  and the piece removed, moved or undropped is the one on its square. \<open>stale_after\<close>
  tracks the squares whose \<open>board\<close> entry \<open>remove_piece\<close> left behind and nothing has
  overwritten since.
\<close>

datatype placement =
    Put piece square
  | Remove piece square
  | Move piece square square
  | Drop piece square
  | Undrop piece square

fun apply_placement :: "placement \<Rightarrow> position \<Rightarrow> position" where
  "apply_placement (Put pc s) pos = put_piece pc s pos"
| "apply_placement (Remove pc s) pos = remove_piece pc s pos"
| "apply_placement (Move pc from to) pos = move_piece pc from to pos"
| "apply_placement (Drop pc s) pos = drop_piece pc s pos"
| "apply_placement (Undrop pc s) pos = undrop_piece pc s pos"

fun placement_ok :: "square set \<Rightarrow> position \<Rightarrow> placement \<Rightarrow> bool" where
  "placement_ok S pos (Put pc s) =
     (s < SQUARE_NB \<and> type_of pc \<noteq> ALL_PIECES \<and> (s \<in> S \<or> board pos s = NO_PIECE))"
| "placement_ok S pos (Remove pc s) =
     (s < SQUARE_NB \<and> s \<notin> S \<and> pc \<noteq> NO_PIECE \<and> board pos s = pc)"
| "placement_ok S pos (Move pc from to) =
     (from < SQUARE_NB \<and> to < SQUARE_NB \<and> from \<notin> S \<and> pc \<noteq> NO_PIECE
      \<and> board pos from = pc \<and> (to \<in> S \<or> board pos to = NO_PIECE))"
| "placement_ok S pos (Drop pc s) =
     (s < SQUARE_NB \<and> type_of pc \<noteq> ALL_PIECES \<and> (s \<in> S \<or> board pos s = NO_PIECE)
      \<and> 0 < pieceCountInHand pos (color_of pc) (type_of pc))"
| "placement_ok S pos (Undrop pc s) =
     (s < SQUARE_NB \<and> s \<notin> S \<and> pc \<noteq> NO_PIECE \<and> board pos s = pc)"

fun stale_after :: "placement \<Rightarrow> square set \<Rightarrow> square set" where
  "stale_after (Put pc s) S = S - {s}"
| "stale_after (Remove pc s) S = insert s S"
| "stale_after (Move pc from to) S = S - {to}"
| "stale_after (Drop pc s) S = S - {s}"
| "stale_after (Undrop pc s) S = S"

fun run_placements ::
  "placement list \<Rightarrow> square set \<times> position \<Rightarrow> (square set \<times> position) option" where
  "run_placements [] (S, pos) = Some (S, pos)"
| "run_placements (x # xs) (S, pos) =
     (if placement_ok S pos x then run_placements xs (stale_after x S, apply_placement x pos)
      else None)"

fun is_remove :: "placement \<Rightarrow> bool" where
  "is_remove (Remove pc s) = True"
| "is_remove x = False"

text \<open>
  The piece counters agree with the board: the counter of a piece is the number of
  squares holding it, and the aggregate counter of a colour is the number of squares
  holding a piece of that colour.
\<close>

definition on_board :: "position \<Rightarrow> (piece \<Rightarrow> bool) \<Rightarrow> nat" where
  "on_board pos P = length (filter (\<lambda>s. P (board pos s)) [0..<SQUARE_NB])"

definition counts_ok :: "position \<Rightarrow> bool" where
  "counts_ok pos =
     ((\<forall>c pt. pt \<noteq> ALL_PIECES \<longrightarrow>
         pieceCount pos (make_piece c pt) = int (on_board pos (\<lambda>pc. pc = make_piece c pt)))
      \<and> (\<forall>c. pieceCount pos (make_piece c ALL_PIECES)
              = int (on_board pos (\<lambda>pc. pc \<noteq> NO_PIECE \<and> color_of pc = c))))"

section \<open>The three hash keys\<close>



text \<open>
  The XOR of the constants that a function gives for the elements of a list.
\<close>

definition xor_list :: "('a \<Rightarrow> Key) \<Rightarrow> 'a list \<Rightarrow> Key" where
  "xor_list f xs = foldr (\<lambda>x k. f x XOR k) xs 0"


















section \<open>Example positions\<close>

text \<open>
  The rule descriptor with the defaults of the configuration file (no promoted piece
  types, no bare-king rule, no flag regions, no check counting), the cleared position, and the positions that the
  examples below evaluate. Squares are numbered by rank from white's side: 4 is e1,
  7 is h1, 60 is e8.
\<close>

definition default_variant :: variant where
  "default_variant =
     \<lparr>maxRank = 7, demotionMap = (\<lambda>pt. NO_PIECE_TYPE), castlingKingsideFile = 6,
      castlingQueensideFile = 2, castlingRank = 0,
      pieceDrops = False, dropLoop = False, capturesToHand = False,
      bareKingValue = VALUE_NONE,
      bareKingMove = False, whiteFlag = 0, blackFlag = 0, flagMove = False,
      maxCheckCount = 0\<rparr>"

definition clear_state :: state_info where
  "clear_state =
     \<lparr>pawnKey = 0, materialKey = 0, castlingRights = 0, rule50 = 0, pliesFromNull = 0,
      checksGiven = (\<lambda>c. 0), epSquare = SQ_NONE, key = 0, capturedPiece = NO_PIECE,
      capturedpromoted = False\<rparr>"

definition clear_position :: "variant \<Rightarrow> position" where
  "clear_position v =
     \<lparr>board = (\<lambda>s. NO_PIECE), byTypeBB = (\<lambda>pt. 0), byColorBB = (\<lambda>c. 0),
      pieceCount = (\<lambda>pc. 0), pieceList = (\<lambda>pc i. SQ_NONE), index = (\<lambda>s. 0),
      castlingRightsMask = (\<lambda>s. 0), gamePly = 0, sideToMove = WHITE, st = clear_state, previous = [], var = v,
      pieceCountInHand = (\<lambda>c pt. 0), promotedPieces = 0\<rparr>"

definition two_kings :: "variant \<Rightarrow> position" where
  "two_kings v =
     put_piece (make_piece BLACK KING) 60 (put_piece (make_piece WHITE KING) 4
       (clear_position v))"

definition castling_position :: position where
  "castling_position = put_piece (make_piece WHITE ROOK) 7 (two_kings default_variant)"

definition castling_move :: move where
  "castling_move =
     \<lparr>from_sq = 4, to_sq = 7, move_type_of = CASTLING, promotion_type = NO_PIECE_TYPE,
      dropped_piece_type = NO_PIECE_TYPE, in_hand_piece_type = NO_PIECE_TYPE\<rparr>"

definition en_passant_move :: move where
  "en_passant_move =
     \<lparr>from_sq = 36, to_sq = 45, move_type_of = ENPASSANT, promotion_type = NO_PIECE_TYPE,
      dropped_piece_type = NO_PIECE_TYPE, in_hand_piece_type = NO_PIECE_TYPE\<rparr>"

definition with_checks :: "CheckCount \<Rightarrow> CheckCount \<Rightarrow> position \<Rightarrow> position" where
  "with_checks w b pos = pos\<lparr>st := (st pos)\<lparr>checksGiven := (\<lambda>c. if c = WHITE then w else b)\<rparr>\<rparr>"

definition bare_flag_check_position :: position where
  "bare_flag_check_position =
     with_checks 0 3 (two_kings (default_variant
       \<lparr>bareKingValue := VALUE_DRAW, blackFlag := SquareBB 60, maxCheckCount := 3\<rparr>))"

definition grace_flag_check_position :: position where
  "grace_flag_check_position =
     with_checks 0 3 (two_kings (default_variant
       \<lparr>whiteFlag := SquareBB 4, flagMove := True, maxCheckCount := 3\<rparr>))"

definition check_position :: position where
  "check_position =
     with_checks 0 3 (two_kings (default_variant\<lparr>maxCheckCount := 3\<rparr>))"

definition bare_flag_position :: position where
  "bare_flag_position =
     two_kings (default_variant\<lparr>bareKingValue := VALUE_DRAW, blackFlag := SquareBB 60\<rparr>)"

definition flag_position :: position where
  "flag_position = two_kings (default_variant\<lparr>blackFlag := SquareBB 60\<rparr>)"

definition grace_flag_position :: position where
  "grace_flag_position =
     two_kings (default_variant\<lparr>whiteFlag := SquareBB 4, flagMove := True\<rparr>)"

definition bare_king_position :: position where
  "bare_king_position = two_kings (default_variant\<lparr>bareKingValue := - VALUE_MATE\<rparr>)"

definition hand_position :: position where
  "hand_position = add_to_hand WHITE PAWN (two_kings (default_variant\<lparr>pieceDrops := True\<rparr>))"

definition capture_sequence :: "placement list" where
  "capture_sequence =
     [Put (make_piece WHITE ROOK) 7, Put (make_piece BLACK KNIGHT) 15,
      Remove (make_piece BLACK KNIGHT) 15, Move (make_piece WHITE ROOK) 7 15]"

definition after_capture :: position where
  "after_capture =
     move_piece (make_piece WHITE ROOK) 7 15
       (remove_piece (make_piece BLACK KNIGHT) 15
         (put_piece (make_piece BLACK KNIGHT) 15
           (put_piece (make_piece WHITE ROOK) 7 (two_kings default_variant))))"

definition drop_sequence :: "placement list" where
  "drop_sequence = [Drop (make_piece WHITE PAWN) 12, Undrop (make_piece WHITE PAWN) 12]"

definition after_drop :: position where
  "after_drop =
     undrop_piece (make_piece WHITE PAWN) 12 (drop_piece (make_piece WHITE PAWN) 12 hand_position)"




text \<open>
  Moves of the other kinds: a black rook goes from a6 to a8; in a variant where a silver
  promotes to a gold and captured pieces go to the hand, a silver promotes on e6, a gold
  is demoted on e6, a pawn is dropped on the knight on h2, and a gold held as a silver is
  dropped on e4.
\<close>

definition rook_lift_position :: position where
  "rook_lift_position =
     (put_piece (make_piece BLACK ROOK) 40 (two_kings default_variant))\<lparr>sideToMove := BLACK\<rparr>"

definition shogi_variant :: variant where
  "shogi_variant =
     default_variant\<lparr>demotionMap := (\<lambda>pt. if pt = GOLD then SILVER else NO_PIECE_TYPE),
       pieceDrops := True, capturesToHand := True\<rparr>"

definition silver_position :: position where
  "silver_position = put_piece (make_piece WHITE SILVER) 36 (two_kings shogi_variant)"

definition silver_promotes :: move where
  "silver_promotes =
     \<lparr>from_sq = 36, to_sq = 44, move_type_of = PIECE_PROMOTION, promotion_type = GOLD,
      dropped_piece_type = NO_PIECE_TYPE, in_hand_piece_type = NO_PIECE_TYPE\<rparr>"

definition gold_position :: position where
  "gold_position = put_piece (make_piece WHITE GOLD) 36 (two_kings shogi_variant)"

definition gold_demotes :: move where
  "gold_demotes =
     \<lparr>from_sq = 36, to_sq = 44, move_type_of = PIECE_DEMOTION, promotion_type = GOLD,
      dropped_piece_type = NO_PIECE_TYPE, in_hand_piece_type = NO_PIECE_TYPE\<rparr>"

definition knight_position :: position where
  "knight_position =
     add_to_hand WHITE SILVER (add_to_hand WHITE PAWN
       (put_piece (make_piece BLACK KNIGHT) 15 (two_kings shogi_variant)))"

definition pawn_drop_on_knight :: move where
  "pawn_drop_on_knight =
     \<lparr>from_sq = SQ_NONE, to_sq = 15, move_type_of = DROP, promotion_type = NO_PIECE_TYPE,
      dropped_piece_type = PAWN, in_hand_piece_type = PAWN\<rparr>"

definition gold_drop :: move where
  "gold_drop =
     \<lparr>from_sq = SQ_NONE, to_sq = 28, move_type_of = DROP, promotion_type = NO_PIECE_TYPE,
      dropped_piece_type = GOLD, in_hand_piece_type = SILVER\<rparr>"


definition quiet_move :: "square \<Rightarrow> square \<Rightarrow> move" where
  "quiet_move f t =
     \<lparr>from_sq = f, to_sq = t, move_type_of = NORMAL, promotion_type = NO_PIECE_TYPE,
      dropped_piece_type = NO_PIECE_TYPE, in_hand_piece_type = NO_PIECE_TYPE\<rparr>"




section \<open>Basic facts\<close>

lemmas piece_defs = NO_PIECE_def NO_PIECE_TYPE_def make_piece_def type_of_def color_of_def

lemma board_put_piece: "board (put_piece pc s pos) = (board pos)(s := pc)"
  by (simp add: put_piece_def Let_def)

lemma var_put_piece: "var (put_piece pc s pos) = var pos"
  by (simp add: put_piece_def Let_def)

lemma st_put_piece: "st (put_piece pc s pos) = st pos"
  by (simp add: put_piece_def Let_def)

lemma sideToMove_put_piece: "sideToMove (put_piece pc s pos) = sideToMove pos"
  by (simp add: put_piece_def Let_def)

lemma board_castling_position:
  "board castling_position = (\<lambda>s. NO_PIECE)
     (4 := make_piece WHITE KING, 60 := make_piece BLACK KING, 7 := make_piece WHITE ROOK)"
  by (simp add: castling_position_def two_kings_def board_put_piece clear_position_def)

section \<open>The terminal-condition evaluator: properties\<close>

lemma bare_king_value_0: "bare_king_value pos 0 = bareKingValue (var pos)"
  by (simp add: bare_king_value_def mate_in_def mated_in_def Let_def)

lemma is_variant_end_chain:
  "is_variant_end pos ply =
     first_satisfied [bare_king_rule pos ply, flag_rule pos ply, check_count_rule pos ply]"
  by (simp add: is_variant_end_def bare_king_rule_def flag_rule_def check_count_rule_def
      king_in_flag_def bare_king_value_0 bare_king_move_def flag_move_def max_check_count_def)

text \<open>Evaluation of the rule families on positions with the two kings only.\<close>

lemma two_kings_fields:
  "var (two_kings v) = v" "sideToMove (two_kings v) = WHITE" "st (two_kings v) = clear_state"
  by (simp_all add: two_kings_def var_put_piece sideToMove_put_piece st_put_piece
      clear_position_def)

lemma two_kings_counts:
  "count (two_kings v) ALL_PIECES c = 1" "count (two_kings v) KING c = 1"
  by (cases c; simp add: two_kings_def count_def put_piece_def Let_def clear_position_def
      piece_defs)+

lemma two_kings_squares:
  "square (two_kings v) KING WHITE = 4" "square (two_kings v) KING BLACK = 60"
  by (simp_all add: two_kings_def square_def put_piece_def Let_def clear_position_def
      piece_defs)

lemma with_checks_fields:
  "var (with_checks w b pos) = var pos" "sideToMove (with_checks w b pos) = sideToMove pos"
  "checksGiven (st (with_checks w b pos)) c = (if c = WHITE then w else b)"
  "count (with_checks w b pos) pt c = count pos pt c"
  "square (with_checks w b pos) pt c = square pos pt c"
  by (simp_all add: with_checks_def count_def square_def)

lemma SquareBB_nonzero: "s < SQUARE_NB \<Longrightarrow> SquareBB s \<noteq> 0"
  by (simp add: SquareBB_def SQUARE_NB_def)

lemmas rule_defs = bare_king_rule_def flag_rule_def check_count_rule_def king_in_flag_def
  capture_the_flag_def bare_king_value_def

lemmas example_simps = two_kings_fields two_kings_counts two_kings_squares with_checks_fields
  default_variant_def VALUE_DRAW_def VALUE_NONE_def VALUE_MATE_def SquareBB_nonzero SQUARE_NB_def

lemma bare_flag_check_rules:
  "bare_king_rule bare_flag_check_position 0 = Some VALUE_DRAW"
  "flag_rule bare_flag_check_position 0 = Some (mated_in 0)"
  "check_count_rule bare_flag_check_position 0 = Some (mated_in 0)"
  by (simp_all add: bare_flag_check_position_def rule_defs example_simps)

lemma grace_flag_check_rules:
  "bare_king_rule grace_flag_check_position 0 = None"
  "flag_rule grace_flag_check_position 0 = Some (mate_in 0)"
  "check_count_rule grace_flag_check_position 0 = Some (mated_in 0)"
  by (simp_all add: grace_flag_check_position_def rule_defs example_simps)

lemma check_rules:
  "bare_king_rule check_position 0 = None"
  "flag_rule check_position 0 = None"
  "check_count_rule check_position 0 = Some (mated_in 0)"
  by (simp_all add: check_position_def rule_defs example_simps)

lemma mate_values: "mate_in 0 \<noteq> mated_in 0" "VALUE_DRAW \<noteq> mated_in 0"
  by (simp_all add: mate_in_def mated_in_def VALUE_MATE_def VALUE_DRAW_def)

text \<open>
  C2. The evaluator tests the rule families in a fixed order, bare king, then capture
  the flag, then check count, and returns the result of the first family whose
  condition holds: whenever an earlier and a later family hold together, the result is
  the earlier one's.
\<close>

theorem is_variant_end_priority:
  "is_variant_end pos ply =
     first_satisfied [bare_king_rule pos ply, flag_rule pos ply, check_count_rule pos ply]
   \<and> (bare_king_rule pos ply = Some v \<longrightarrow> is_variant_end pos ply = Some v)
   \<and> (bare_king_rule pos ply = None \<and> flag_rule pos ply = Some v
        \<longrightarrow> is_variant_end pos ply = Some v)
   \<and> (bare_king_rule pos ply = None \<and> flag_rule pos ply = None
        \<longrightarrow> is_variant_end pos ply = check_count_rule pos ply)"
proof -
  have chain: "is_variant_end pos ply =
     first_satisfied [bare_king_rule pos ply, flag_rule pos ply, check_count_rule pos ply]"
    by (rule is_variant_end_chain)
  have "first_satisfied [r] = r" for r :: "Value option"
    by (cases r) simp_all
  with chain show ?thesis by simp
qed

text \<open>
  The order on three positions: bare king (a draw) before flag and check count; the
  flag with the grace move (a win) before check count (a loss); check count alone.
\<close>

theorem is_variant_end_priority_witness:
  "bare_king_rule bare_flag_check_position 0 = Some VALUE_DRAW
   \<and> flag_rule bare_flag_check_position 0 = Some (mated_in 0)
   \<and> check_count_rule bare_flag_check_position 0 = Some (mated_in 0)
   \<and> is_variant_end bare_flag_check_position 0 = Some VALUE_DRAW
   \<and> bare_king_rule grace_flag_check_position 0 = None
   \<and> flag_rule grace_flag_check_position 0 = Some (mate_in 0)
   \<and> check_count_rule grace_flag_check_position 0 = Some (mated_in 0)
   \<and> is_variant_end grace_flag_check_position 0 = Some (mate_in 0)
   \<and> bare_king_rule check_position 0 = None
   \<and> flag_rule check_position 0 = None
   \<and> is_variant_end check_position 0 = Some (mated_in 0)"
  using is_variant_end_priority [of bare_flag_check_position 0 VALUE_DRAW]
    is_variant_end_priority [of grace_flag_check_position 0 "mate_in 0"]
    is_variant_end_priority [of check_position 0]
  by (simp add: bare_flag_check_rules grace_flag_check_rules check_rules)


lemma flag_rules_examples:
  "bare_king_rule bare_flag_position 0 = Some VALUE_DRAW"
  "king_in_flag bare_flag_position (opp (sideToMove bare_flag_position))"
  "\<not> flag_move bare_flag_position"
  "bare_king_rule flag_position 0 = None"
  "king_in_flag flag_position (opp (sideToMove flag_position))"
  "\<not> flag_move flag_position"
  "bare_king_rule grace_flag_position 0 = None"
  "king_in_flag grace_flag_position (sideToMove grace_flag_position)"
  "flag_move grace_flag_position"
  by (simp_all add: bare_flag_position_def flag_position_def grace_flag_position_def
      flag_move_def rule_defs example_simps)

text \<open>
  C4 as stated fails when an earlier family fires: the opponent's counter has reached
  the threshold 3, but the side to move's king stands in its flag region with the grace
  move configured, and the evaluator returns a win for the side to move.
\<close>

theorem check_count_counterexample:
  "max_check_count grace_flag_check_position \<noteq> 0
   \<and> checks_given grace_flag_check_position (opp (sideToMove grace_flag_check_position))
       = max_check_count grace_flag_check_position
   \<and> is_variant_end grace_flag_check_position 0 = Some (mate_in 0)
   \<and> mate_in 0 \<noteq> mated_in 0"
proof -
  have "max_check_count grace_flag_check_position = 3"
    and "checks_given grace_flag_check_position (opp (sideToMove grace_flag_check_position)) = 3"
    by (simp_all add: grace_flag_check_position_def max_check_count_def checks_given_def
        example_simps)
  then show ?thesis
    by (simp add: is_variant_end_chain grace_flag_check_rules mate_values)
qed

text \<open>
  C4, amended. Under the check-count rule (a threshold other than 0), in a position
  where neither the bare-king nor the capture-the-flag family fires, \<open>is_variant_end\<close>
  returns true with a loss for the side to move (\<open>mated_in ply\<close>) exactly when the
  opponent's checks-given counter equals the threshold, and returns false otherwise.
\<close>

theorem check_count_after_earlier_rules:
  assumes "max_check_count pos \<noteq> 0"
    and "bare_king_rule pos ply = None" and "flag_rule pos ply = None"
  shows "(is_variant_end pos ply = Some (mated_in ply)
           \<longleftrightarrow> checks_given pos (opp (sideToMove pos)) = max_check_count pos)
       \<and> (is_variant_end pos ply = None
           \<longleftrightarrow> checks_given pos (opp (sideToMove pos)) \<noteq> max_check_count pos)"
  using assms
  by (simp add: is_variant_end_chain check_count_rule_def max_check_count_def checks_given_def)

text \<open>
  The check-count rule alone, at a position where the opponent has given three checks.
\<close>

theorem check_count_after_earlier_rules_witness:
  "max_check_count check_position \<noteq> 0
   \<and> bare_king_rule check_position 0 = None
   \<and> flag_rule check_position 0 = None
   \<and> checks_given check_position (opp (sideToMove check_position))
       = max_check_count check_position
   \<and> is_variant_end check_position 0 = Some (mated_in 0)"
proof -
  have m: "max_check_count check_position \<noteq> 0"
    by (simp add: check_position_def max_check_count_def example_simps)
  have c: "checks_given check_position (opp (sideToMove check_position))
       = max_check_count check_position"
    by (simp add: check_position_def max_check_count_def checks_given_def example_simps)
  show ?thesis
    using check_count_after_earlier_rules [OF m check_rules(1) check_rules(2)] m c
    by (simp add: check_rules)
qed

text \<open>
  C5 as stated fails when the bare-king family fires first: the non-moving side's king
  stands in its flag region without grace move, but the side to move has a bare king
  with a draw configured, and the evaluator returns the draw, not a loss.
\<close>

theorem capture_the_flag_counterexample:
  "\<not> flag_move bare_flag_position
   \<and> king_in_flag bare_flag_position (opp (sideToMove bare_flag_position))
   \<and> is_variant_end bare_flag_position 0 = Some VALUE_DRAW
   \<and> VALUE_DRAW \<noteq> mated_in 0"
  by (simp add: is_variant_end_chain flag_rules_examples mate_values)

text \<open>
  C5, amended. In a position where the bare-king family does not fire: without the
  grace move, the flag condition is tested for the king of the side not to move (in
  that side's flag region) and the side to move is declared lost; with the grace move,
  it is tested for the king of the side to move and the side to move is declared
  winning. When the tested king is not in its region, the flag family does not fire,
  wherever the other king stands, and the result is the check-count family's.
\<close>

theorem capture_the_flag_after_bare_king:
  assumes "bare_king_rule pos ply = None"
  shows "(\<not> flag_move pos \<and> king_in_flag pos (opp (sideToMove pos))
            \<longrightarrow> is_variant_end pos ply = Some (mated_in ply))
       \<and> (flag_move pos \<and> king_in_flag pos (sideToMove pos)
            \<longrightarrow> is_variant_end pos ply = Some (mate_in ply))
       \<and> (\<not> flag_move pos \<and> \<not> king_in_flag pos (opp (sideToMove pos))
            \<longrightarrow> is_variant_end pos ply = check_count_rule pos ply)
       \<and> (flag_move pos \<and> \<not> king_in_flag pos (sideToMove pos)
            \<longrightarrow> is_variant_end pos ply = check_count_rule pos ply)"
proof -
  have "first_satisfied [r] = r" for r :: "Value option"
    by (cases r) simp_all
  then show ?thesis
    using assms by (simp add: is_variant_end_chain flag_rule_def flag_move_def)
qed

text \<open>
  Both modes: black's king in black's region with white to move and no grace move;
  white's king in white's region with white to move and the grace move.
\<close>

theorem capture_the_flag_after_bare_king_witness:
  "bare_king_rule flag_position 0 = None
   \<and> \<not> flag_move flag_position
   \<and> king_in_flag flag_position (opp (sideToMove flag_position))
   \<and> is_variant_end flag_position 0 = Some (mated_in 0)
   \<and> bare_king_rule grace_flag_position 0 = None
   \<and> flag_move grace_flag_position
   \<and> king_in_flag grace_flag_position (sideToMove grace_flag_position)
   \<and> is_variant_end grace_flag_position 0 = Some (mate_in 0)"
  using capture_the_flag_after_bare_king [OF flag_rules_examples(4)]
    capture_the_flag_after_bare_king [OF flag_rules_examples(7)]
  by (simp add: flag_rules_examples)

subsection \<open>Piece counters\<close>

lemma on_board_card: "on_board pos P = card {s. s < SQUARE_NB \<and> P (board pos s)}"
proof -
  have "{x. P (board pos x)} \<inter> set [0..<SQUARE_NB] = {s. s < SQUARE_NB \<and> P (board pos s)}"
    by auto
  then show ?thesis
    by (simp add: on_board_def distinct_length_filter)
qed

lemma on_board_cong:
  assumes "\<And>s. s < SQUARE_NB \<Longrightarrow> P (board pos s) = Q (board pos s)"
  shows "on_board pos P = on_board pos Q"
proof -
  have "{s. s < SQUARE_NB \<and> P (board pos s)} = {s. s < SQUARE_NB \<and> Q (board pos s)}"
    using assms by auto
  then show ?thesis by (simp add: on_board_card)
qed

lemma bare_king_counts:
  assumes "counts_ok pos"
    and "\<forall>s<SQUARE_NB. board pos s \<noteq> NO_PIECE \<and> color_of (board pos s) = c
           \<longrightarrow> type_of (board pos s) = KING"
  shows "count pos ALL_PIECES c = count pos KING c"
proof -
  have "on_board pos (\<lambda>pc. pc \<noteq> NO_PIECE \<and> color_of pc = c)
      = on_board pos (\<lambda>pc. pc = make_piece c KING)"
    using assms(2) by (intro on_board_cong) (auto simp: piece_defs prod_eq_iff)
  then show ?thesis
    using assms(1) by (simp add: counts_ok_def count_def)
qed

lemma is_variant_end_bare_king_loss:
  assumes "bareKingValue (var pos) = - VALUE_MATE" and "\<not> bareKingMove (var pos)"
    and "count pos ALL_PIECES (sideToMove pos) = count pos KING (sideToMove pos)"
  shows "is_variant_end pos ply = Some (mated_in ply)"
  using assms
  by (simp add: is_variant_end_chain bare_king_rule_def bare_king_value_def
      VALUE_MATE_def VALUE_NONE_def)


lemma pieceCount_put_piece:
  "type_of pc \<noteq> ALL_PIECES \<Longrightarrow>
   pieceCount (put_piece pc s pos) pc' =
     pieceCount pos pc' + (if pc' = pc then 1 else 0)
       + (if pc' = make_piece (color_of pc) ALL_PIECES then 1 else 0)"
  by (auto simp: put_piece_def Let_def piece_defs)

lemma on_board_put_piece:
  assumes "s < SQUARE_NB" and "\<not> P (board pos s)"
  shows "on_board (put_piece pc s pos) P = on_board pos P + (if P pc then 1 else 0)"
proof -
  let ?A = "{x. x < SQUARE_NB \<and> P (board pos x)}"
  have fin: "finite ?A" by simp
  have notin: "s \<notin> ?A" using assms by simp
  have "{x. x < SQUARE_NB \<and> P (((board pos)(s := pc)) x)} = (if P pc then insert s ?A else ?A)"
    using assms by auto
  then show ?thesis
    using fin notin by (simp add: on_board_card board_put_piece)
qed

lemma counts_ok_put_piece:
  assumes "counts_ok pos" and "s < SQUARE_NB" and "board pos s = NO_PIECE"
    and "type_of pc \<noteq> ALL_PIECES"
  shows "counts_ok (put_piece pc s pos)"
proof -
  have a: "pieceCount (put_piece pc s pos) (make_piece c pt)
      = int (on_board (put_piece pc s pos) (\<lambda>x. x = make_piece c pt))"
    if "pt \<noteq> ALL_PIECES" for c pt
  proof -
    have "\<not> (board pos s = make_piece c pt)"
      using assms(3) that by (simp add: piece_defs)
    then have "on_board (put_piece pc s pos) (\<lambda>x. x = make_piece c pt)
        = on_board pos (\<lambda>x. x = make_piece c pt) + (if pc = make_piece c pt then 1 else 0)"
      using on_board_put_piece [OF assms(2), of "\<lambda>x. x = make_piece c pt" pos pc] by simp
    moreover have "pieceCount pos (make_piece c pt)
        = int (on_board pos (\<lambda>x. x = make_piece c pt))"
      using assms(1) that by (simp add: counts_ok_def)
    ultimately show ?thesis
      using that assms(4) by (auto simp: pieceCount_put_piece piece_defs)
  qed
  have b: "pieceCount (put_piece pc s pos) (make_piece c ALL_PIECES)
      = int (on_board (put_piece pc s pos) (\<lambda>x. x \<noteq> NO_PIECE \<and> color_of x = c))" for c
  proof -
    have "on_board (put_piece pc s pos) (\<lambda>x. x \<noteq> NO_PIECE \<and> color_of x = c)
        = on_board pos (\<lambda>x. x \<noteq> NO_PIECE \<and> color_of x = c)
          + (if pc \<noteq> NO_PIECE \<and> color_of pc = c then 1 else 0)"
      using on_board_put_piece [OF assms(2), of "\<lambda>x. x \<noteq> NO_PIECE \<and> color_of x = c" pos pc]
        assms(3) by simp
    moreover have "pieceCount pos (make_piece c ALL_PIECES)
        = int (on_board pos (\<lambda>x. x \<noteq> NO_PIECE \<and> color_of x = c))"
      using assms(1) by (simp add: counts_ok_def)
    ultimately show ?thesis
      using assms(4) by (auto simp: pieceCount_put_piece piece_defs)
  qed
  show ?thesis
    using a b by (simp add: counts_ok_def)
qed

lemma counts_ok_clear_position: "counts_ok (clear_position v)"
  by (simp add: counts_ok_def on_board_card clear_position_def piece_defs)

lemma board_two_kings:
  "board (two_kings v) = (\<lambda>s. NO_PIECE)(4 := make_piece WHITE KING, 60 := make_piece BLACK KING)"
  by (simp add: two_kings_def board_put_piece clear_position_def)

lemma counts_ok_two_kings: "counts_ok (two_kings v)"
  unfolding two_kings_def
  by (intro counts_ok_put_piece counts_ok_clear_position)
     (simp_all add: board_put_piece clear_position_def SQUARE_NB_def piece_defs)

text \<open>
  C6. When the descriptor configures the bare-king result as a loss and no extra move,
  and the side to move has no piece but kings, \<open>is_variant_end\<close> returns true with
  the immediate loss \<open>mated_in ply\<close>. The condition is stated twice: on the counters
  that the code reads, and on the board of a position whose counters agree with it.
\<close>

theorem bare_king_immediate_loss:
  assumes "bareKingValue (var pos) = - VALUE_MATE" and "\<not> bareKingMove (var pos)"
  shows "(count pos ALL_PIECES (sideToMove pos) - count pos KING (sideToMove pos) = 0
            \<longrightarrow> is_variant_end pos ply = Some (mated_in ply) \<and> is_variant_end0 pos)
       \<and> (counts_ok pos
            \<and> (\<forall>s<SQUARE_NB. board pos s \<noteq> NO_PIECE \<and> color_of (board pos s) = sideToMove pos
                   \<longrightarrow> type_of (board pos s) = KING)
            \<longrightarrow> is_variant_end pos ply = Some (mated_in ply) \<and> is_variant_end0 pos)"
proof -
  have "is_variant_end pos n = Some (mated_in n)"
    if "count pos ALL_PIECES (sideToMove pos) = count pos KING (sideToMove pos)" for n
    using assms that by (rule is_variant_end_bare_king_loss)
  then show ?thesis
    using bare_king_counts [of pos "sideToMove pos"] by (auto simp: is_variant_end0_def)
qed

text \<open>
  White to move with the king alone against the black king.
\<close>

theorem bare_king_immediate_loss_witness:
  "bareKingValue (var bare_king_position) = - VALUE_MATE
   \<and> \<not> bareKingMove (var bare_king_position)
   \<and> count bare_king_position ALL_PIECES (sideToMove bare_king_position)
       - count bare_king_position KING (sideToMove bare_king_position) = 0
   \<and> counts_ok bare_king_position
   \<and> board bare_king_position
       = (\<lambda>s. NO_PIECE)(4 := make_piece WHITE KING, 60 := make_piece BLACK KING)
   \<and> sideToMove bare_king_position = WHITE
   \<and> is_variant_end bare_king_position 0 = Some (mated_in 0)
   \<and> is_variant_end0 bare_king_position"
proof -
  have v: "bareKingValue (var bare_king_position) = - VALUE_MATE"
    and m: "\<not> bareKingMove (var bare_king_position)"
    and c: "count bare_king_position ALL_PIECES (sideToMove bare_king_position)
       - count bare_king_position KING (sideToMove bare_king_position) = 0"
    by (simp_all add: bare_king_position_def two_kings_fields two_kings_counts
        default_variant_def)
  show ?thesis
    using bare_king_immediate_loss [OF v m, of 0] v m c
    by (simp add: bare_king_position_def counts_ok_two_kings board_two_kings
        two_kings_fields)
qed

section \<open>Piece placement: properties\<close>

lemma bit_SquareBB: "bit (SquareBB s) n \<longleftrightarrow> n = s \<and> s < SQUARE_NB"
  by (auto simp: SquareBB_def SQUARE_NB_def bit_simps)

lemma color_cases: "c = WHITE \<or> c = BLACK"
  by (cases c) auto

lemma all_pieces_union:
  assumes "bitboards_ok_except S pos"
  shows "byTypeBB pos ALL_PIECES = (byColorBB pos WHITE OR byColorBB pos BLACK)"
proof (rule bit_eqI)
  fix n assume "possible_bit TYPE(64 word) n"
  then have n: "n < SQUARE_NB" by (simp add: SQUARE_NB_def possible_bit_word)
  show "bit (byTypeBB pos ALL_PIECES) n = bit (byColorBB pos WHITE OR byColorBB pos BLACK) n"
    using assms n color_cases [of "color_of (board pos n)"]
    by (auto simp: bitboards_ok_except_def occupied_at_def vacant_at_def bit_or_iff
        split: if_splits)
qed

lemma ok_except_matches:
  assumes "bitboards_ok_except S pos"
  shows "board_matches_except S pos"
proof -
  have "\<forall>s<SQUARE_NB. s \<notin> S \<longrightarrow>
         (\<forall>pc. pc \<noteq> NO_PIECE \<and> type_of pc \<noteq> ALL_PIECES \<longrightarrow>
            (board pos s = pc \<longleftrightarrow>
               bit (byColorBB pos (color_of pc)) s \<and> bit (byTypeBB pos (type_of pc)) s))"
    using assms
    by (auto simp: bitboards_ok_except_def occupied_at_def color_of_def type_of_def prod_eq_iff)
  then show ?thesis
    using all_pieces_union [OF assms] by (simp add: board_matches_except_def)
qed

subsection \<open>Field-wise effect of the placement primitives\<close>

lemma byTypeBB_put_piece:
  "byTypeBB (put_piece pc s pos) pt =
     (if pt = ALL_PIECES \<or> pt = type_of pc then byTypeBB pos pt OR SquareBB s
      else byTypeBB pos pt)"
  by (simp add: put_piece_def Let_def)

lemma byColorBB_put_piece:
  "byColorBB (put_piece pc s pos) c =
     (if c = color_of pc then byColorBB pos c OR SquareBB s else byColorBB pos c)"
  by (simp add: put_piece_def Let_def)

lemma pieceCountInHand_put_piece:
  "pieceCountInHand (put_piece pc s pos) = pieceCountInHand pos"
  by (simp add: put_piece_def Let_def)

lemma board_remove_piece: "board (remove_piece pc s pos) = board pos"
  by (simp add: remove_piece_def Let_def)

lemma byTypeBB_remove_piece:
  "type_of pc \<noteq> ALL_PIECES \<Longrightarrow>
   byTypeBB (remove_piece pc s pos) pt =
     (if pt = ALL_PIECES \<or> pt = type_of pc then byTypeBB pos pt XOR SquareBB s
      else byTypeBB pos pt)"
  by (simp add: remove_piece_def Let_def)

lemma byColorBB_remove_piece:
  "byColorBB (remove_piece pc s pos) c =
     (if c = color_of pc then byColorBB pos c XOR SquareBB s else byColorBB pos c)"
  by (simp add: remove_piece_def Let_def)

lemma pieceCountInHand_remove_piece:
  "pieceCountInHand (remove_piece pc s pos) = pieceCountInHand pos"
  by (simp add: remove_piece_def Let_def)

lemma board_move_piece:
  "board (move_piece pc from to pos) = (board pos)(from := NO_PIECE, to := pc)"
  by (simp add: move_piece_def Let_def)

lemma byTypeBB_move_piece:
  "type_of pc \<noteq> ALL_PIECES \<Longrightarrow>
   byTypeBB (move_piece pc from to pos) pt =
     (if pt = ALL_PIECES \<or> pt = type_of pc
      then byTypeBB pos pt XOR (SquareBB from XOR SquareBB to)
      else byTypeBB pos pt)"
  by (simp add: move_piece_def Let_def)

lemma byColorBB_move_piece:
  "byColorBB (move_piece pc from to pos) c =
     (if c = color_of pc then byColorBB pos c XOR (SquareBB from XOR SquareBB to)
      else byColorBB pos c)"
  by (simp add: move_piece_def Let_def)

lemma remove_from_hand_fields:
  "board (remove_from_hand c pt pos) = board pos"
  "byTypeBB (remove_from_hand c pt pos) = byTypeBB pos"
  "byColorBB (remove_from_hand c pt pos) = byColorBB pos"
  by (simp_all add: remove_from_hand_def Let_def)

lemma add_to_hand_fields:
  "board (add_to_hand c pt pos) = board pos"
  "byTypeBB (add_to_hand c pt pos) = byTypeBB pos"
  "byColorBB (add_to_hand c pt pos) = byColorBB pos"
  by (simp_all add: add_to_hand_def Let_def)

lemma pieceCountInHand_remove_from_hand:
  "pt \<noteq> ALL_PIECES \<Longrightarrow>
   pieceCountInHand (remove_from_hand c pt pos) c' pt' =
     (if c' = c \<and> (pt' = pt \<or> pt' = ALL_PIECES) then pieceCountInHand pos c' pt' - 1
      else pieceCountInHand pos c' pt')"
  by (simp add: remove_from_hand_def Let_def)

lemma pieceCountInHand_add_to_hand:
  "pt \<noteq> ALL_PIECES \<Longrightarrow>
   pieceCountInHand (add_to_hand c pt pos) c' pt' =
     (if c' = c \<and> (pt' = pt \<or> pt' = ALL_PIECES) then pieceCountInHand pos c' pt' + 1
      else pieceCountInHand pos c' pt')"
  by (simp add: add_to_hand_def Let_def)

lemma bitboards_ok_except_fields:
  assumes "board q = board pos" "byTypeBB q = byTypeBB pos" "byColorBB q = byColorBB pos"
  shows "bitboards_ok_except S q = bitboards_ok_except S pos"
  by (simp add: bitboards_ok_except_def occupied_at_def vacant_at_def assms)

subsection \<open>The placement primitives keep board and bitboards together\<close>

lemma removed_piece_type:
  assumes "bitboards_ok_except S pos" "s < SQUARE_NB" "s \<notin> S" "pc \<noteq> NO_PIECE" "board pos s = pc"
  shows "type_of pc \<noteq> ALL_PIECES"
  using assms by (auto simp: bitboards_ok_except_def occupied_at_def)

lemma ok_except_put_piece:
  assumes "bitboards_ok_except S pos" "placement_ok S pos (Put pc s)"
  shows "bitboards_ok_except (S - {s}) (put_piece pc s pos)"
  using assms
  by (auto simp: bitboards_ok_except_def occupied_at_def vacant_at_def
      board_put_piece byTypeBB_put_piece byColorBB_put_piece
      bit_or_iff bit_SquareBB piece_defs split: if_splits)

lemma ok_except_remove_piece:
  assumes "bitboards_ok_except S pos" "placement_ok S pos (Remove pc s)"
  shows "bitboards_ok_except (insert s S) (remove_piece pc s pos)"
proof -
  have t: "type_of pc \<noteq> ALL_PIECES"
    using assms(2) removed_piece_type [OF assms(1), of s pc] by simp
  show ?thesis
    using assms t
    by (auto simp: bitboards_ok_except_def occupied_at_def vacant_at_def
      board_remove_piece byTypeBB_remove_piece byColorBB_remove_piece
      bit_xor_iff bit_SquareBB piece_defs split: if_splits)
qed

lemma ok_except_move_piece:
  assumes "bitboards_ok_except S pos" "placement_ok S pos (Move pc from to)"
  shows "bitboards_ok_except (S - {to}) (move_piece pc from to pos)"
proof -
  have t: "type_of pc \<noteq> ALL_PIECES"
    using assms(2) removed_piece_type [OF assms(1), of "from" pc] by simp
  show ?thesis
    using assms t
    by (auto simp: bitboards_ok_except_def occupied_at_def vacant_at_def
      board_move_piece byTypeBB_move_piece byColorBB_move_piece
      bit_xor_iff bit_SquareBB piece_defs split: if_splits)
qed

lemma ok_except_drop_piece:
  assumes "bitboards_ok_except S pos" "placement_ok S pos (Drop pc s)"
  shows "bitboards_ok_except (S - {s}) (drop_piece pc s pos)"
proof -
  have "placement_ok S pos (Put pc s)" using assms(2) by simp
  then have "bitboards_ok_except (S - {s}) (put_piece pc s pos)"
    using assms(1) by (rule ok_except_put_piece [rotated])
  then show ?thesis
    by (simp add: drop_piece_def bitboards_ok_except_fields [OF remove_from_hand_fields])
qed

lemma ok_except_undrop_piece:
  assumes "bitboards_ok_except S pos" "placement_ok S pos (Undrop pc s)"
  shows "bitboards_ok_except S (undrop_piece pc s pos)"
proof -
  have t: "type_of pc \<noteq> ALL_PIECES"
    using assms(2) removed_piece_type [OF assms(1), of s pc] by simp
  have "bitboards_ok_except S ((remove_piece pc s pos)\<lparr>board := (board pos)(s := NO_PIECE)\<rparr>)"
    using assms t
    by (auto simp: bitboards_ok_except_def occupied_at_def vacant_at_def
      byTypeBB_remove_piece byColorBB_remove_piece
      bit_xor_iff bit_SquareBB piece_defs split: if_splits)
  then show ?thesis
    by (simp add: undrop_piece_def Let_def board_remove_piece
        bitboards_ok_except_fields [OF add_to_hand_fields])
qed

lemma ok_except_apply_placement:
  assumes "bitboards_ok_except S pos" "placement_ok S pos x"
  shows "bitboards_ok_except (stale_after x S) (apply_placement x pos)"
proof (cases x)
  case (Put pc s)
  then show ?thesis using assms ok_except_put_piece [of S pos pc s] by simp
next
  case (Remove pc s)
  then show ?thesis using assms ok_except_remove_piece [of S pos pc s] by simp
next
  case (Move pc f t)
  then show ?thesis using assms ok_except_move_piece [of S pos pc f t] by simp
next
  case (Drop pc s)
  then show ?thesis using assms ok_except_drop_piece [of S pos pc s] by simp
next
  case (Undrop pc s)
  then show ?thesis using assms ok_except_undrop_piece [of S pos pc s] by simp
qed

lemma ok_except_run_placements:
  assumes "bitboards_ok_except S pos" "run_placements xs (S, pos) = Some (S', pos')"
  shows "bitboards_ok_except S' pos'"
  using assms
proof (induction xs arbitrary: S pos)
  case Nil
  then show ?case by simp
next
  case (Cons x xs)
  from Cons.prems(2) have ok: "placement_ok S pos x"
    and run: "run_placements xs (stale_after x S, apply_placement x pos) = Some (S', pos')"
    by (simp_all split: if_splits)
  from Cons.prems(1) ok have "bitboards_ok_except (stale_after x S) (apply_placement x pos)"
    by (rule ok_except_apply_placement)
  then show ?case using run by (rule Cons.IH)
qed

lemma stale_run_placements:
  assumes "run_placements xs (S, pos) = Some (S', pos')" "\<forall>x\<in>set xs. \<not> is_remove x"
  shows "S' \<subseteq> S"
  using assms
proof (induction xs arbitrary: S pos)
  case Nil
  then show ?case by simp
next
  case (Cons x xs)
  from Cons.prems(1) have
    run: "run_placements xs (stale_after x S, apply_placement x pos) = Some (S', pos')"
    by (simp split: if_splits)
  have "S' \<subseteq> stale_after x S"
    using run Cons.prems(2) by (intro Cons.IH) simp_all
  moreover have "stale_after x S \<subseteq> S"
    using Cons.prems(2) by (cases x) auto
  ultimately show ?case by blast
qed

text \<open>
  C3, amended. In every position reached from a consistent position by a sequence of
  the placement primitives used within their contract, for every square other than
  those that \<open>remove_piece\<close> has left stale and nothing has overwritten since, the
  board holds a piece exactly when the square is set in the bitboard of the piece's
  colour and in the bitboard of its type; and the all-pieces bitboard is the union of
  the two colour bitboards. When no square is stale, in particular after any sequence of
  \<open>put_piece\<close>, \<open>move_piece\<close>, \<open>drop_piece\<close> and \<open>undrop_piece\<close>, this holds for
  every square.
\<close>

theorem placements_keep_board_and_bitboards:
  assumes "bitboards_ok pos" and "run_placements xs ({}, pos) = Some (S, pos')"
  shows "board_matches_except S pos'
       \<and> (S = {} \<longrightarrow> board_matches_bitboards pos')
       \<and> ((\<forall>x\<in>set xs. \<not> is_remove x) \<longrightarrow> board_matches_bitboards pos')"
proof -
  have "bitboards_ok_except S pos'"
    using assms ok_except_run_placements by (simp add: bitboards_ok_def)
  then have m: "board_matches_except S pos'"
    by (rule ok_except_matches)
  moreover have "S = {}" if "\<forall>x\<in>set xs. \<not> is_remove x"
    using stale_run_placements [OF assms(2) that] by simp
  ultimately show ?thesis
    by (auto simp: board_matches_bitboards_def)
qed


subsection \<open>Placement examples\<close>

lemma bitboards_ok_clear_position: "bitboards_ok (clear_position v)"
  by (simp add: bitboards_ok_def bitboards_ok_except_def occupied_at_def clear_position_def)

lemma bitboards_ok_two_kings: "bitboards_ok (two_kings v)"
proof -
  have "bitboards_ok_except ({} - {4}) (put_piece (make_piece WHITE KING) 4 (clear_position v))"
    using bitboards_ok_clear_position [of v]
    by (intro ok_except_put_piece)
       (simp_all add: bitboards_ok_def clear_position_def SQUARE_NB_def piece_defs)
  then have "bitboards_ok_except ({} - {60}) (two_kings v)"
    unfolding two_kings_def
    by (intro ok_except_put_piece)
       (simp_all add: board_put_piece clear_position_def SQUARE_NB_def piece_defs)
  then show ?thesis by (simp add: bitboards_ok_def)
qed

lemma bitboards_ok_hand_position: "bitboards_ok hand_position"
  using bitboards_ok_two_kings
  by (simp add: hand_position_def bitboards_ok_def
      bitboards_ok_except_fields [OF add_to_hand_fields])

lemma board_hand_position:
  "board hand_position
     = (\<lambda>s. NO_PIECE)(4 := make_piece WHITE KING, 60 := make_piece BLACK KING)"
  by (simp add: hand_position_def add_to_hand_fields board_two_kings)

lemma hand_hand_position:
  "pieceCountInHand hand_position c pt
     = (if c = WHITE \<and> (pt = PAWN \<or> pt = ALL_PIECES) then 1 else 0)"
  by (simp add: hand_position_def pieceCountInHand_add_to_hand two_kings_def
      pieceCountInHand_put_piece clear_position_def)

lemma run_capture_sequence:
  "run_placements capture_sequence ({}, two_kings default_variant) = Some ({}, after_capture)"
  by (simp add: capture_sequence_def after_capture_def board_put_piece board_remove_piece
      board_two_kings SQUARE_NB_def piece_defs)

lemma run_drop_sequence:
  "run_placements drop_sequence ({}, hand_position) = Some ({}, after_drop)"
  by (simp add: drop_sequence_def after_drop_def drop_piece_def board_put_piece
      remove_from_hand_fields pieceCountInHand_put_piece
      board_hand_position hand_hand_position SQUARE_NB_def piece_defs)

text \<open>
  C3 as stated fails after \<open>remove_piece\<close>: it clears the bitboards of the square and
  leaves the board entry, so the board still shows the white king on e1 while the white
  bitboard no longer has e1.
\<close>

theorem remove_piece_counterexample:
  "bitboards_ok (two_kings default_variant)
   \<and> run_placements [Remove (make_piece WHITE KING) 4] ({}, two_kings default_variant)
       = Some ({4}, remove_piece (make_piece WHITE KING) 4 (two_kings default_variant))
   \<and> board (remove_piece (make_piece WHITE KING) 4 (two_kings default_variant)) 4
       = make_piece WHITE KING
   \<and> \<not> bit (byColorBB (remove_piece (make_piece WHITE KING) 4 (two_kings default_variant))
             WHITE) 4
   \<and> \<not> board_matches_bitboards
         (remove_piece (make_piece WHITE KING) 4 (two_kings default_variant))"
proof -
  let ?q = "remove_piece (make_piece WHITE KING) 4 (two_kings default_variant)"
  have b: "board ?q 4 = make_piece WHITE KING"
    by (simp add: board_remove_piece board_two_kings)
  have c: "\<not> bit (byColorBB ?q WHITE) 4"
    by (simp add: byColorBB_remove_piece two_kings_def byColorBB_put_piece clear_position_def
        piece_defs bit_xor_iff bit_or_iff bit_SquareBB SQUARE_NB_def)
  have "\<not> board_matches_bitboards ?q"
  proof
    assume "board_matches_bitboards ?q"
    then have "board ?q 4 = make_piece WHITE KING \<longleftrightarrow>
        bit (byColorBB ?q (color_of (make_piece WHITE KING))) 4
        \<and> bit (byTypeBB ?q (type_of (make_piece WHITE KING))) 4"
      unfolding board_matches_bitboards_def board_matches_except_def
      by (auto simp: SQUARE_NB_def piece_defs)
    with b c show False by (simp add: piece_defs)
  qed
  then show ?thesis
    using b c bitboards_ok_two_kings
    by (simp add: board_two_kings SQUARE_NB_def piece_defs)
qed

text \<open>
  A capture (put two pieces, remove the captured one, move the capturing one onto its
  square) and a drop followed by its undrop.
\<close>

theorem placements_keep_board_and_bitboards_witness:
  "bitboards_ok (two_kings default_variant)
   \<and> run_placements capture_sequence ({}, two_kings default_variant) = Some ({}, after_capture)
   \<and> board_matches_bitboards after_capture
   \<and> bitboards_ok hand_position
   \<and> run_placements drop_sequence ({}, hand_position) = Some ({}, after_drop)
   \<and> list_all (\<lambda>x. \<not> is_remove x) drop_sequence
   \<and> board_matches_bitboards after_drop"
proof -
  have "list_all (\<lambda>x. \<not> is_remove x) drop_sequence"
    by (simp add: drop_sequence_def)
  moreover from this have "\<forall>x\<in>set drop_sequence. \<not> is_remove x"
    by (simp add: list_all_iff)
  ultimately show ?thesis
    using placements_keep_board_and_bitboards
        [OF bitboards_ok_two_kings run_capture_sequence]
      placements_keep_board_and_bitboards [OF bitboards_ok_hand_position run_drop_sequence]
      bitboards_ok_two_kings bitboards_ok_hand_position run_capture_sequence run_drop_sequence
    by simp
qed

subsection \<open>Population of a bitboard\<close>

lemma popcount_card: "popcount b = card {n. n < SQUARE_NB \<and> bit b n}"
proof -
  have "{x. bit b x} \<inter> set [0..<SQUARE_NB] = {n. n < SQUARE_NB \<and> bit b n}"
    by auto
  then show ?thesis
    by (simp add: popcount_def distinct_length_filter)
qed

lemma popcount_set_bit:
  assumes "s < SQUARE_NB" and "\<not> bit b s"
  shows "popcount (b OR SquareBB s) = popcount b + 1"
proof -
  let ?A = "{n. n < SQUARE_NB \<and> bit b n}"
  have "{n. n < SQUARE_NB \<and> bit (b OR SquareBB s) n} = insert s ?A"
    using assms by (auto simp: bit_or_iff bit_SquareBB)
  moreover have "finite ?A" and "s \<notin> ?A"
    using assms by simp_all
  ultimately show ?thesis
    by (simp add: popcount_card)
qed

text \<open>
  C7 as stated fails on the aggregate slot: dropping the white pawn also decrements the
  hand count that white holds under \<open>ALL_PIECES\<close>, which is another (colour, type)
  entry than (white, pawn).
\<close>

theorem drop_piece_counterexample:
  "make_piece WHITE ALL_PIECES \<noteq> make_piece WHITE PAWN
   \<and> bitboards_ok hand_position
   \<and> board hand_position 12 = NO_PIECE
   \<and> count_in_hand hand_position WHITE PAWN = 1
   \<and> count_in_hand hand_position WHITE ALL_PIECES = 1
   \<and> count_in_hand (drop_piece (make_piece WHITE PAWN) 12 hand_position) WHITE ALL_PIECES = 0"
  using bitboards_ok_hand_position
  by (simp add: count_in_hand_def drop_piece_def pieceCountInHand_remove_from_hand
      pieceCountInHand_put_piece hand_hand_position board_hand_position piece_defs)

text \<open>
  C7, amended. For every colour, every piece type other than the aggregate
  \<open>ALL_PIECES\<close> and every empty square of a consistent position, given a hand count of
  at least 1, \<open>drop_piece\<close> decrements that hand count by exactly 1, decrements the
  aggregate \<open>ALL_PIECES\<close> hand count of the same colour by exactly 1, leaves every
  other hand count unchanged, increases the population of the all-pieces bitboard by
  exactly 1, and leaves the dropped piece on the square.
\<close>

theorem drop_piece_effect:
  assumes "bitboards_ok pos" and "s < SQUARE_NB" and "board pos s = NO_PIECE"
    and "pt \<noteq> ALL_PIECES" and "1 \<le> count_in_hand pos c pt"
  shows "count_in_hand (drop_piece (make_piece c pt) s pos) c pt = count_in_hand pos c pt - 1
       \<and> count_in_hand (drop_piece (make_piece c pt) s pos) c ALL_PIECES
           = count_in_hand pos c ALL_PIECES - 1
       \<and> (\<forall>c' pt'. (c', pt') \<noteq> (c, pt) \<and> (c', pt') \<noteq> (c, ALL_PIECES) \<longrightarrow>
             count_in_hand (drop_piece (make_piece c pt) s pos) c' pt'
               = count_in_hand pos c' pt')
       \<and> popcount (pieces (drop_piece (make_piece c pt) s pos)) = popcount (pieces pos) + 1
       \<and> piece_on (drop_piece (make_piece c pt) s pos) s = make_piece c pt"
proof -
  have hand: "pieceCountInHand (drop_piece (make_piece c pt) s pos) c' pt' =
     (if c' = c \<and> (pt' = pt \<or> pt' = ALL_PIECES) then pieceCountInHand pos c' pt' - 1
      else pieceCountInHand pos c' pt')" for c' pt'
    using assms(4)
    by (simp add: drop_piece_def pieceCountInHand_remove_from_hand pieceCountInHand_put_piece
        piece_defs)
  have "\<not> bit (byTypeBB pos ALL_PIECES) s"
    using assms(1-3) by (simp add: bitboards_ok_def bitboards_ok_except_def occupied_at_def)
  then have pop: "popcount (pieces (drop_piece (make_piece c pt) s pos))
      = popcount (pieces pos) + 1"
    using assms(2)
    by (simp add: pieces_def drop_piece_def remove_from_hand_fields byTypeBB_put_piece
        popcount_set_bit)
  have on: "piece_on (drop_piece (make_piece c pt) s pos) s = make_piece c pt"
    by (simp add: piece_on_def drop_piece_def remove_from_hand_fields board_put_piece)
  show ?thesis
    using hand pop on assms(4) by (auto simp: count_in_hand_def)
qed

text \<open>
  The white pawn in hand is dropped on e2.
\<close>

theorem drop_piece_effect_witness:
  "bitboards_ok hand_position
   \<and> board hand_position 12 = NO_PIECE
   \<and> count_in_hand hand_position WHITE PAWN = 1
   \<and> count_in_hand (drop_piece (make_piece WHITE PAWN) 12 hand_position) WHITE PAWN = 0
   \<and> count_in_hand (drop_piece (make_piece WHITE PAWN) 12 hand_position) BLACK PAWN
       = count_in_hand hand_position BLACK PAWN
   \<and> popcount (pieces (drop_piece (make_piece WHITE PAWN) 12 hand_position))
       = popcount (pieces hand_position) + 1
   \<and> piece_on (drop_piece (make_piece WHITE PAWN) 12 hand_position) 12 = make_piece WHITE PAWN"
proof -
  have s: "(12::nat) < SQUARE_NB" by (simp add: SQUARE_NB_def)
  have b: "board hand_position 12 = NO_PIECE" by (simp add: board_hand_position)
  have t: "PAWN \<noteq> ALL_PIECES" by simp
  have h: "1 \<le> count_in_hand hand_position WHITE PAWN"
    by (simp add: count_in_hand_def hand_hand_position)
  have c: "count_in_hand hand_position WHITE PAWN = 1"
    by (simp add: count_in_hand_def hand_hand_position)
  show ?thesis
    using drop_piece_effect [OF bitboards_ok_hand_position s b t h] b c
      bitboards_ok_hand_position
    by simp
qed

section \<open>Move application and retraction: properties\<close>

lemmas st_only_defs = xor_key_def xor_pawn_key_def xor_material_key_def reset_rule50_def
  set_captured_def

subsection \<open>Fields after the placement primitives\<close>

lemma put_piece_fields:
  "board (put_piece pc s pos) = (board pos)(s := pc)"
  "byTypeBB (put_piece pc s pos) pt =
     byTypeBB pos pt OR (if pt = ALL_PIECES \<or> pt = type_of pc then SquareBB s else 0)"
  "byColorBB (put_piece pc s pos) c =
     byColorBB pos c OR (if c = color_of pc then SquareBB s else 0)"
  "pieceCountInHand (put_piece pc s pos) = pieceCountInHand pos"
  "promotedPieces (put_piece pc s pos) = promotedPieces pos"
  "var (put_piece pc s pos) = var pos"
  "st (put_piece pc s pos) = st pos"
  "previous (put_piece pc s pos) = previous pos"
  "sideToMove (put_piece pc s pos) = sideToMove pos"
  "gamePly (put_piece pc s pos) = gamePly pos"
  "castlingRightsMask (put_piece pc s pos) = castlingRightsMask pos"
  by (simp_all add: put_piece_def Let_def)

lemma remove_piece_fields:
  "board (remove_piece pc s pos) = board pos"
  "byTypeBB (remove_piece pc s pos) pt =
     byTypeBB pos pt XOR (if pt = ALL_PIECES then SquareBB s else 0)
       XOR (if pt = type_of pc then SquareBB s else 0)"
  "byColorBB (remove_piece pc s pos) c =
     byColorBB pos c XOR (if c = color_of pc then SquareBB s else 0)"
  "pieceCountInHand (remove_piece pc s pos) = pieceCountInHand pos"
  "promotedPieces (remove_piece pc s pos) = promotedPieces pos"
  "var (remove_piece pc s pos) = var pos"
  "st (remove_piece pc s pos) = st pos"
  "previous (remove_piece pc s pos) = previous pos"
  "sideToMove (remove_piece pc s pos) = sideToMove pos"
  "gamePly (remove_piece pc s pos) = gamePly pos"
  "castlingRightsMask (remove_piece pc s pos) = castlingRightsMask pos"
  by (auto simp: remove_piece_def Let_def bit_eq_iff bit_xor_iff)

lemma move_piece_fields:
  "board (move_piece pc f t pos) = (board pos)(f := NO_PIECE, t := pc)"
  "byTypeBB (move_piece pc f t pos) pt =
     byTypeBB pos pt XOR (if pt = ALL_PIECES then SquareBB f XOR SquareBB t else 0)
       XOR (if pt = type_of pc then SquareBB f XOR SquareBB t else 0)"
  "byColorBB (move_piece pc f t pos) c =
     byColorBB pos c XOR (if c = color_of pc then SquareBB f XOR SquareBB t else 0)"
  "pieceCountInHand (move_piece pc f t pos) = pieceCountInHand pos"
  "promotedPieces (move_piece pc f t pos) = promotedPieces pos"
  "var (move_piece pc f t pos) = var pos"
  "st (move_piece pc f t pos) = st pos"
  "previous (move_piece pc f t pos) = previous pos"
  "sideToMove (move_piece pc f t pos) = sideToMove pos"
  "gamePly (move_piece pc f t pos) = gamePly pos"
  "castlingRightsMask (move_piece pc f t pos) = castlingRightsMask pos"
  by (auto simp: move_piece_def Let_def bit_eq_iff bit_xor_iff)

lemma add_to_hand_fields':
  "board (add_to_hand c pt pos) = board pos"
  "byTypeBB (add_to_hand c pt pos) = byTypeBB pos"
  "byColorBB (add_to_hand c pt pos) = byColorBB pos"
  "pieceCountInHand (add_to_hand c pt pos) c' pt' =
     pieceCountInHand pos c' pt' + (if c' = c \<and> pt' = pt then 1 else 0)
       + (if c' = c \<and> pt' = ALL_PIECES then 1 else 0)"
  "promotedPieces (add_to_hand c pt pos) = promotedPieces pos"
  "var (add_to_hand c pt pos) = var pos"
  "st (add_to_hand c pt pos) = st pos"
  "previous (add_to_hand c pt pos) = previous pos"
  "sideToMove (add_to_hand c pt pos) = sideToMove pos"
  "gamePly (add_to_hand c pt pos) = gamePly pos"
  "castlingRightsMask (add_to_hand c pt pos) = castlingRightsMask pos"
  by (simp_all add: add_to_hand_def Let_def)

lemma remove_from_hand_fields':
  "board (remove_from_hand c pt pos) = board pos"
  "byTypeBB (remove_from_hand c pt pos) = byTypeBB pos"
  "byColorBB (remove_from_hand c pt pos) = byColorBB pos"
  "pieceCountInHand (remove_from_hand c pt pos) c' pt' =
     pieceCountInHand pos c' pt' - (if c' = c \<and> pt' = pt then 1 else 0)
       - (if c' = c \<and> pt' = ALL_PIECES then 1 else 0)"
  "promotedPieces (remove_from_hand c pt pos) = promotedPieces pos"
  "var (remove_from_hand c pt pos) = var pos"
  "st (remove_from_hand c pt pos) = st pos"
  "previous (remove_from_hand c pt pos) = previous pos"
  "sideToMove (remove_from_hand c pt pos) = sideToMove pos"
  "gamePly (remove_from_hand c pt pos) = gamePly pos"
  "castlingRightsMask (remove_from_hand c pt pos) = castlingRightsMask pos"
  by (simp_all add: remove_from_hand_def Let_def)

lemmas primitive_fields = put_piece_fields remove_piece_fields move_piece_fields
  add_to_hand_fields' remove_from_hand_fields'


lemma st_only_fields:
  "board (xor_key x pos) = board pos" "byTypeBB (xor_key x pos) = byTypeBB pos"
  "byColorBB (xor_key x pos) = byColorBB pos"
  "pieceCountInHand (xor_key x pos) = pieceCountInHand pos"
  "promotedPieces (xor_key x pos) = promotedPieces pos" "var (xor_key x pos) = var pos"
  "previous (xor_key x pos) = previous pos" "sideToMove (xor_key x pos) = sideToMove pos"
  "gamePly (xor_key x pos) = gamePly pos"
  "castlingRightsMask (xor_key x pos) = castlingRightsMask pos"
  "capturedPiece (st (xor_key x pos)) = capturedPiece (st pos)"
  "capturedpromoted (st (xor_key x pos)) = capturedpromoted (st pos)"
  "board (reset_rule50 pos) = board pos" "byTypeBB (reset_rule50 pos) = byTypeBB pos"
  "byColorBB (reset_rule50 pos) = byColorBB pos"
  "pieceCountInHand (reset_rule50 pos) = pieceCountInHand pos"
  "promotedPieces (reset_rule50 pos) = promotedPieces pos" "var (reset_rule50 pos) = var pos"
  "previous (reset_rule50 pos) = previous pos" "sideToMove (reset_rule50 pos) = sideToMove pos"
  "gamePly (reset_rule50 pos) = gamePly pos"
  "castlingRightsMask (reset_rule50 pos) = castlingRightsMask pos"
  "capturedPiece (st (reset_rule50 pos)) = capturedPiece (st pos)"
  "capturedpromoted (st (reset_rule50 pos)) = capturedpromoted (st pos)"
  "board (set_captured pc pos) = board pos" "byTypeBB (set_captured pc pos) = byTypeBB pos"
  "byColorBB (set_captured pc pos) = byColorBB pos"
  "pieceCountInHand (set_captured pc pos) = pieceCountInHand pos"
  "promotedPieces (set_captured pc pos) = promotedPieces pos"
  "var (set_captured pc pos) = var pos"
  "previous (set_captured pc pos) = previous pos"
  "sideToMove (set_captured pc pos) = sideToMove pos"
  "gamePly (set_captured pc pos) = gamePly pos"
  "castlingRightsMask (set_captured pc pos) = castlingRightsMask pos"
  "capturedPiece (st (set_captured pc pos)) = pc"
  "capturedpromoted (st (set_captured pc pos)) = capturedpromoted (st pos)"
  by (simp_all add: st_only_defs)

lemma put_piece_k_fields:
  "board (put_piece_k T pc s pos) = board (put_piece pc s pos)"
  "byTypeBB (put_piece_k T pc s pos) = byTypeBB (put_piece pc s pos)"
  "byColorBB (put_piece_k T pc s pos) = byColorBB (put_piece pc s pos)"
  "pieceCountInHand (put_piece_k T pc s pos) = pieceCountInHand pos"
  "promotedPieces (put_piece_k T pc s pos) = promotedPieces pos"
  "var (put_piece_k T pc s pos) = var pos"
  "previous (put_piece_k T pc s pos) = previous pos"
  "sideToMove (put_piece_k T pc s pos) = sideToMove pos"
  "gamePly (put_piece_k T pc s pos) = gamePly pos"
  "castlingRightsMask (put_piece_k T pc s pos) = castlingRightsMask pos"
  "capturedPiece (st (put_piece_k T pc s pos)) = capturedPiece (st pos)"
  "capturedpromoted (st (put_piece_k T pc s pos)) = capturedpromoted (st pos)"
  by (simp_all add: put_piece_k_def Let_def st_only_defs put_piece_fields)

lemma remove_piece_k_fields:
  "board (remove_piece_k T pc s pos) = board pos"
  "byTypeBB (remove_piece_k T pc s pos) = byTypeBB (remove_piece pc s pos)"
  "byColorBB (remove_piece_k T pc s pos) = byColorBB (remove_piece pc s pos)"
  "pieceCountInHand (remove_piece_k T pc s pos) = pieceCountInHand pos"
  "promotedPieces (remove_piece_k T pc s pos) = promotedPieces pos"
  "var (remove_piece_k T pc s pos) = var pos"
  "previous (remove_piece_k T pc s pos) = previous pos"
  "sideToMove (remove_piece_k T pc s pos) = sideToMove pos"
  "gamePly (remove_piece_k T pc s pos) = gamePly pos"
  "castlingRightsMask (remove_piece_k T pc s pos) = castlingRightsMask pos"
  "capturedPiece (st (remove_piece_k T pc s pos)) = capturedPiece (st pos)"
  "capturedpromoted (st (remove_piece_k T pc s pos)) = capturedpromoted (st pos)"
  by (simp_all add: remove_piece_k_def Let_def st_only_defs remove_piece_fields)

lemma move_piece_k_fields:
  "board (move_piece_k T pc f t pos) = board (move_piece pc f t pos)"
  "byTypeBB (move_piece_k T pc f t pos) = byTypeBB (move_piece pc f t pos)"
  "byColorBB (move_piece_k T pc f t pos) = byColorBB (move_piece pc f t pos)"
  "pieceCountInHand (move_piece_k T pc f t pos) = pieceCountInHand pos"
  "promotedPieces (move_piece_k T pc f t pos) = promotedPieces pos"
  "var (move_piece_k T pc f t pos) = var pos"
  "previous (move_piece_k T pc f t pos) = previous pos"
  "sideToMove (move_piece_k T pc f t pos) = sideToMove pos"
  "gamePly (move_piece_k T pc f t pos) = gamePly pos"
  "castlingRightsMask (move_piece_k T pc f t pos) = castlingRightsMask pos"
  "capturedPiece (st (move_piece_k T pc f t pos)) = capturedPiece (st pos)"
  "capturedpromoted (st (move_piece_k T pc f t pos)) = capturedpromoted (st pos)"
  by (simp_all add: move_piece_k_def Let_def st_only_defs move_piece_fields)

lemma add_to_hand_k_fields:
  "board (add_to_hand_k T pc pos) = board pos"
  "byTypeBB (add_to_hand_k T pc pos) = byTypeBB pos"
  "byColorBB (add_to_hand_k T pc pos) = byColorBB pos"
  "pieceCountInHand (add_to_hand_k T pc pos)
     = pieceCountInHand (add_to_hand (color_of pc) (type_of pc) pos)"
  "promotedPieces (add_to_hand_k T pc pos) = promotedPieces pos"
  "var (add_to_hand_k T pc pos) = var pos"
  "previous (add_to_hand_k T pc pos) = previous pos"
  "sideToMove (add_to_hand_k T pc pos) = sideToMove pos"
  "gamePly (add_to_hand_k T pc pos) = gamePly pos"
  "castlingRightsMask (add_to_hand_k T pc pos) = castlingRightsMask pos"
  "capturedPiece (st (add_to_hand_k T pc pos)) = capturedPiece (st pos)"
  "capturedpromoted (st (add_to_hand_k T pc pos)) = capturedpromoted (st pos)"
  by (simp_all add: add_to_hand_k_def Let_def st_only_defs add_to_hand_fields')

lemma remove_from_hand_k_fields:
  "board (remove_from_hand_k T pc pos) = board pos"
  "byTypeBB (remove_from_hand_k T pc pos) = byTypeBB pos"
  "byColorBB (remove_from_hand_k T pc pos) = byColorBB pos"
  "pieceCountInHand (remove_from_hand_k T pc pos)
     = pieceCountInHand (remove_from_hand (color_of pc) (type_of pc) pos)"
  "promotedPieces (remove_from_hand_k T pc pos) = promotedPieces pos"
  "var (remove_from_hand_k T pc pos) = var pos"
  "previous (remove_from_hand_k T pc pos) = previous pos"
  "sideToMove (remove_from_hand_k T pc pos) = sideToMove pos"
  "gamePly (remove_from_hand_k T pc pos) = gamePly pos"
  "castlingRightsMask (remove_from_hand_k T pc pos) = castlingRightsMask pos"
  "capturedPiece (st (remove_from_hand_k T pc pos)) = capturedPiece (st pos)"
  "capturedpromoted (st (remove_from_hand_k T pc pos)) = capturedpromoted (st pos)"
  by (simp_all add: remove_from_hand_k_def Let_def st_only_defs remove_from_hand_fields')

lemmas keyed_fields = st_only_fields put_piece_k_fields remove_piece_k_fields
  move_piece_k_fields add_to_hand_k_fields remove_from_hand_k_fields


subsection \<open>Fields after the steps of move application\<close>










subsection \<open>The content that retraction restores\<close>




















subsection \<open>Promotion\<close>







subsection \<open>Drop\<close>






subsection \<open>En passant\<close>






subsection \<open>Castling\<close>





lemma do_castling_k_captured:
  "capturedPiece (st (do_castling_k T us m pos)) = NO_PIECE"
  by (simp add: do_castling_k_def Let_def keyed_fields)













text \<open>
  The structural conditions hold for moves of every kind: a rook that goes two ranks up,
  the promotion and the demotion of a piece that is not a pawn, a drop on an occupied
  square and a drop in promoted state; the positions are consistent.
\<close>

lemma bitboards_ok_put_on_two_kings:
  assumes "s < SQUARE_NB" and "s \<noteq> 4" and "s \<noteq> 60" and "type_of pc \<noteq> ALL_PIECES"
  shows "bitboards_ok (put_piece pc s (two_kings v))"
proof -
  have "bitboards_ok_except ({} - {s}) (put_piece pc s (two_kings v))"
    using bitboards_ok_two_kings [of v] assms
    by (intro ok_except_put_piece) (simp_all add: bitboards_ok_def board_two_kings)
  then show ?thesis by (simp add: bitboards_ok_def)
qed

lemma bitboards_ok_frames:
  "bitboards_ok (pos\<lparr>sideToMove := c\<rparr>) = bitboards_ok pos"
  "bitboards_ok (add_to_hand c pt pos) = bitboards_ok pos"
  by (simp_all add: bitboards_ok_def bitboards_ok_except_def occupied_at_def vacant_at_def
      add_to_hand_fields')

lemma rook_lift_ok:
  "bitboards_ok rook_lift_position" "move_ok rook_lift_position (quiet_move 40 56)"
  by (simp_all add: rook_lift_position_def bitboards_ok_frames bitboards_ok_put_on_two_kings
      move_ok_def Let_def quiet_move_def board_put_piece board_two_kings SQUARE_NB_def
      piece_defs)

lemma silver_promotes_ok:
  "bitboards_ok silver_position" "move_ok silver_position silver_promotes"
  by (simp_all add: silver_position_def bitboards_ok_put_on_two_kings move_ok_def Let_def
      promotion_squares_ok_def promotion_from_def base_type_def silver_promotes_def
      shogi_variant_def put_piece_fields two_kings_fields board_put_piece board_two_kings
      SQUARE_NB_def piece_defs)

lemma gold_demotes_ok:
  "bitboards_ok gold_position" "move_ok gold_position gold_demotes"
  by (simp_all add: gold_position_def bitboards_ok_put_on_two_kings move_ok_def Let_def
      promotion_squares_ok_def promotion_from_def base_type_def gold_demotes_def
      shogi_variant_def put_piece_fields two_kings_fields board_put_piece board_two_kings
      SQUARE_NB_def piece_defs)

lemma drops_ok:
  "bitboards_ok knight_position" "move_ok knight_position pawn_drop_on_knight"
  "move_ok knight_position gold_drop"
  by (simp_all add: knight_position_def bitboards_ok_frames bitboards_ok_put_on_two_kings
      move_ok_def Let_def pawn_drop_on_knight_def gold_drop_def SQUARE_NB_def piece_defs)

section \<open>The three hash keys: properties\<close>

lemma xor_list_simps [simp]:
  "xor_list f [] = 0" "xor_list f (x # xs) = f x XOR xor_list f xs"
  by (simp_all add: xor_list_def)

























































subsection \<open>The walk of the kings\<close>





section \<open>Properties of moves\<close>

text \<open>
  C10. A move is classified as a capture if and only if its destination square is
  occupied and it is not a castling move, or it is an en-passant move. In particular a
  castling move is never a capture, although its encoded destination (the rook's
  square) is occupied, and an en-passant move is always a capture, although its
  destination is empty.
\<close>

theorem capture_iff:
  "(capture pos m \<longleftrightarrow>
      (board pos (to_sq m) \<noteq> NO_PIECE \<and> move_type_of m \<noteq> CASTLING)
      \<or> move_type_of m = ENPASSANT)
   \<and> (move_type_of m = CASTLING \<longrightarrow> \<not> capture pos m)
   \<and> (move_type_of m = ENPASSANT \<longrightarrow> capture pos m)"
  by (auto simp: capture_def empty_sq_def)

theorem capture_iff_witness:
  "board castling_position (to_sq castling_move) = make_piece WHITE ROOK
   \<and> move_type_of castling_move = CASTLING
   \<and> \<not> capture castling_position castling_move
   \<and> board castling_position (to_sq en_passant_move) = NO_PIECE
   \<and> move_type_of en_passant_move = ENPASSANT
   \<and> capture castling_position en_passant_move"
  using capture_iff [of castling_position castling_move]
    capture_iff [of castling_position en_passant_move]
  by (simp add: board_castling_position castling_move_def en_passant_move_def)

end
